theory Spec2Isabelle
  imports Complex_Main "HOL-Library.Log_Nat"
begin

section \<open>Python strings\<close>

text \<open>
  A Python \<open>str\<close> is modelled as a \<open>string\<close> whose characters are the code points
  below 256. The helpers below are the built-in string operations the program calls.
\<close>

definition is_space :: "char \<Rightarrow> bool" where
  \<comment> \<open>\<open>str.isspace\<close> on one code point: what \<open>strip()\<close> and \<open>split()\<close> remove\<close>
  "is_space c = (of_char c \<in> {9::int, 10, 11, 12, 13, 28, 29, 30, 31, 32, 133, 160})"

definition is_num_space :: "char \<Rightarrow> bool" where
  \<comment> \<open>the white space that \<open>int()\<close> and \<open>float()\<close> skip around a literal\<close>
  "is_num_space c = (of_char c \<in> {9::int, 10, 11, 12, 13, 32, 133, 160})"

definition rstrip_while :: "(char \<Rightarrow> bool) \<Rightarrow> string \<Rightarrow> string" where
  "rstrip_while P s = rev (dropWhile P (rev s))"

definition py_strip :: "string \<Rightarrow> string" where
  \<comment> \<open>\<open>s.strip()\<close>\<close>
  "py_strip s = rstrip_while is_space (dropWhile is_space s)"

definition rstrip_crlf :: "string \<Rightarrow> string" where
  \<comment> \<open>\<open>s.rstrip('\r\n')\<close>: removes every trailing carriage return and line feed\<close>
  "rstrip_crlf s = rstrip_while (\<lambda>c. c = CHR 0x0D \<or> c = CHR 0x0A) s"

definition py_rjust :: "nat \<Rightarrow> char \<Rightarrow> string \<Rightarrow> string" where
  \<comment> \<open>\<open>s.rjust(width, fill)\<close>: pads on the left, never shortens\<close>
  "py_rjust w fill s = replicate (w - length s) fill @ s"

definition slice :: "nat \<Rightarrow> nat \<Rightarrow> string \<Rightarrow> string" where
  \<comment> \<open>\<open>s[a:b]\<close> for constant bounds \<open>0 \<le> a \<le> b\<close>; clipped at the end of the string\<close>
  "slice a b s = take (b - a) (drop a s)"

definition startswith :: "string \<Rightarrow> string \<Rightarrow> bool" where
  "startswith s p = (take (length p) s = p)"

fun split_ws :: "string \<Rightarrow> string \<Rightarrow> string list" where
  \<comment> \<open>\<open>s.split()\<close>; the first argument is the word being read\<close>
  "split_ws w [] = (if w = [] then [] else [w])"
| "split_ws w (c # cs) =
     (if is_space c then (if w = [] then split_ws [] cs else w # split_ws [] cs)
      else split_ws (w @ [c]) cs)"

definition py_split :: "string \<Rightarrow> string list" where
  "py_split s = split_ws [] s"

section \<open>Python numbers\<close>

subsection \<open>Decimal digits\<close>

definition is_digit :: "char \<Rightarrow> bool" where
  "is_digit c = (48 \<le> (of_char c :: int) \<and> (of_char c :: int) \<le> 57)"

definition digit_val :: "char \<Rightarrow> int" where
  "digit_val c = of_char c - 48"

definition digit_char :: "int \<Rightarrow> char" where
  "digit_char d = ''0123456789'' ! nat d"

function decimal :: "int \<Rightarrow> string" where
  \<comment> \<open>the decimal digits of an integer \<open>n \<ge> 0\<close>\<close>
  "decimal n = (if n < 10 then [digit_char n] else decimal (n div 10) @ [digit_char (n mod 10)])"
  by pat_completeness auto
termination
  by (relation "measure nat") auto

declare decimal.simps [simp del]

definition digits_val :: "string \<Rightarrow> int" where
  "digits_val ds = foldl (\<lambda>a c. 10 * a + digit_val c) 0 ds"

fun digitpart :: "string \<Rightarrow> string option" where
  \<comment> \<open>a run of digits in which single underscores may separate digits;
      the result is the digits alone, \<open>None\<close> when the run is malformed\<close>
  "digitpart [] = None"
| "digitpart [c] = (if is_digit c then Some [c] else None)"
| "digitpart (c # d # r) =
     (if \<not> is_digit c then None
      else if d = CHR ''_'' then map_option ((#) c) (digitpart r)
      else map_option ((#) c) (digitpart (d # r)))"

definition num_strip :: "string \<Rightarrow> string" where
  "num_strip s = rstrip_while is_num_space (dropWhile is_num_space s)"

definition split_sign :: "string \<Rightarrow> bool \<times> string" where
  \<comment> \<open>an optional leading sign; \<open>True\<close> for minus\<close>
  "split_sign s =
     (case s of
        c # r \<Rightarrow> if c = CHR ''-'' then (True, r) else if c = CHR ''+'' then (False, r) else (False, s)
      | [] \<Rightarrow> (False, s))"

subsection \<open>\<open>int\<close>\<close>

definition int_of_str :: "string \<Rightarrow> int option" where
  \<comment> \<open>\<open>int(s)\<close> for a string, base 10; \<open>None\<close> is the \<open>ValueError\<close>\<close>
  "int_of_str s =
     (case split_sign (num_strip s) of
        (neg, body) \<Rightarrow>
          (case digitpart body of
             None \<Rightarrow> None
           | Some ds \<Rightarrow> Some (if neg then - digits_val ds else digits_val ds)))"

definition str_of_int :: "int \<Rightarrow> string" where
  \<comment> \<open>\<open>str(i)\<close>\<close>
  "str_of_int i = (if i < 0 then CHR ''-'' # decimal (- i) else decimal i)"

definition zero_pad :: "nat \<Rightarrow> bool \<Rightarrow> string \<Rightarrow> string" where
  \<comment> \<open>the \<open>0\<close> flag of a format specification: zeros go between the sign and the body\<close>
  "zero_pad w neg body =
     (if neg then CHR ''-'' # replicate (w - Suc (length body)) CHR ''0'' @ body
      else replicate (w - length body) CHR ''0'' @ body)"

definition format_0d :: "nat \<Rightarrow> int \<Rightarrow> string" where
  \<comment> \<open>\<open>f"{i:0{w}d}"\<close>\<close>
  "format_0d w i = zero_pad w (i < 0) (decimal \<bar>i\<bar>)"

subsection \<open>\<open>float\<close>\<close>

text \<open>
  A \<open>float\<close> is an IEEE 754 binary64 number: a sign and a magnitude, an infinity, or
  not-a-number. Finite results are rounded to the nearest representable magnitude, ties to
  the even significand, as the interpreter's conversions and additions do.
\<close>

datatype pyfloat = Finite bool rat | Infinite bool | NaN

definition pow2 :: "int \<Rightarrow> rat" where
  "pow2 e = (if 0 \<le> e then 2 ^ nat e else 1 / 2 ^ nat (- e))"

definition floor_log2 :: "rat \<Rightarrow> int" where
  \<comment> \<open>for \<open>q > 0\<close>: the \<open>e\<close> with \<open>2 ^ e \<le> q < 2 ^ (e + 1)\<close>\<close>
  "floor_log2 q =
     (case quotient_of q of
        (a, b) \<Rightarrow> let e = bitlen a - bitlen b in if pow2 e \<le> q then e else e - 1)"

definition round_half_even :: "rat \<Rightarrow> int" where
  "round_half_even q =
     (let f = \<lfloor>q\<rfloor>; d = q - of_int f
      in if d < 1 / 2 then f else if 1 / 2 < d then f + 1 else if even f then f else f + 1)"

definition round_binary64 :: "bool \<Rightarrow> rat \<Rightarrow> pyfloat" where
  \<comment> \<open>the binary64 value nearest to the magnitude \<open>q \<ge> 0\<close>, with the given sign: a
      significand of 53 bits at the exponent of \<open>q\<close> (at least \<open>- 1022\<close>); a result that
      reaches \<open>2 ^ 1024\<close> is an infinity\<close>
  "round_binary64 neg q =
     (if q \<le> 0 then Finite neg 0
      else let e = max (floor_log2 q) (- 1022);
               ulp = pow2 (e - 52);
               m = round_half_even (q / ulp)
           in if 1023 < e \<or> (e = 1023 \<and> 2 ^ 53 \<le> m) then Infinite neg
              else Finite neg (of_int m * ulp))"

definition float_of_rat :: "rat \<Rightarrow> pyfloat" where
  "float_of_rat q = round_binary64 (q < 0) \<bar>q\<bar>"

definition float_of_int :: "int \<Rightarrow> pyfloat option" where
  \<comment> \<open>\<open>float(i)\<close>; \<open>None\<close> is the \<open>OverflowError\<close> of an int too large\<close>
  "float_of_int i =
     (case float_of_rat (of_int i) of Infinite _ \<Rightarrow> None | x \<Rightarrow> Some x)"

definition lower_ascii :: "char \<Rightarrow> char" where
  "lower_ascii c =
     (if 65 \<le> (of_char c :: int) \<and> (of_char c :: int) \<le> 90 then char_of (of_char c + 32 :: int) else c)"

definition opt_digitpart :: "string \<Rightarrow> string option" where
  \<comment> \<open>an optional run of digits: empty, or a well-formed digit part\<close>
  "opt_digitpart s = (if s = [] then Some [] else digitpart s)"

definition decimal_of_str :: "string \<Rightarrow> rat option" where
  \<comment> \<open>an unsigned decimal literal: digits, an optional point and fraction (one of the two
      digit runs may be empty), an optional exponent \<open>e\<close> with sign and digits\<close>
  "decimal_of_str s =
     (let mant = takeWhile (\<lambda>c. c \<noteq> CHR ''e'' \<and> c \<noteq> CHR ''E'') s;
          rest = dropWhile (\<lambda>c. c \<noteq> CHR ''e'' \<and> c \<noteq> CHR ''E'') s;
          ex = (if rest = [] then Some 0
                else case split_sign (tl rest) of
                       (neg, ds) \<Rightarrow> map_option (\<lambda>d. if neg then - digits_val d else digits_val d)
                                     (digitpart ds));
          ip = takeWhile (\<lambda>c. c \<noteq> CHR ''.'') mant;
          fr = dropWhile (\<lambda>c. c \<noteq> CHR ''.'') mant;
          ds = (if fr = [] then map_option (\<lambda>i. (i, [])) (digitpart ip)
                else case (opt_digitpart ip, opt_digitpart (tl fr)) of
                       (Some i, Some f) \<Rightarrow> if i = [] \<and> f = [] then None else Some (i, f)
                     | _ \<Rightarrow> None)
      in case (ds, ex) of
           (Some (i, f), Some e) \<Rightarrow>
             Some (of_int (digits_val (i @ f)) * (if int (length f) \<le> e
                                                   then 10 ^ nat (e - int (length f))
                                                   else 1 / 10 ^ nat (int (length f) - e)))
         | _ \<Rightarrow> None)"

definition float_of_str :: "string \<Rightarrow> pyfloat option" where
  \<comment> \<open>\<open>float(s)\<close> for a string; \<open>None\<close> is the \<open>ValueError\<close>\<close>
  "float_of_str s =
     (case split_sign (num_strip s) of
        (neg, body) \<Rightarrow>
          let w = map lower_ascii body
          in if w = ''inf'' \<or> w = ''infinity'' then Some (Infinite neg)
             else if w = ''nan'' then Some NaN
             else map_option (round_binary64 neg) (decimal_of_str body))"

fun float_add :: "pyfloat \<Rightarrow> pyfloat \<Rightarrow> pyfloat" where
  "float_add NaN _ = NaN"
| "float_add _ NaN = NaN"
| "float_add (Infinite a) (Infinite b) = (if a = b then Infinite a else NaN)"
| "float_add (Infinite a) (Finite _ _) = Infinite a"
| "float_add (Finite _ _) (Infinite b) = Infinite b"
| "float_add (Finite a x) (Finite b y) =
     (let s = (if a then - x else x) + (if b then - y else y)
      in if s = 0 then Finite (a \<and> b) 0 else float_of_rat s)"

fun float_negative :: "pyfloat \<Rightarrow> bool" where
  \<comment> \<open>\<open>x < 0\<close>\<close>
  "float_negative (Finite neg q) = (neg \<and> 0 < q)"
| "float_negative (Infinite neg) = neg"
| "float_negative NaN = False"

fun float_sign :: "pyfloat \<Rightarrow> bool" where
  "float_sign (Finite neg _) = neg"
| "float_sign (Infinite neg) = neg"
| "float_sign NaN = False"

fun float_body_2f :: "pyfloat \<Rightarrow> string" where
  \<comment> \<open>the unsigned text of \<open>f"{x:.2f}"\<close>: the magnitude rounded to hundredths, ties to even\<close>
  "float_body_2f (Finite _ q) =
     (let n = round_half_even (q * 100)
      in decimal (n div 100) @ CHR ''.'' # [digit_char (n mod 100 div 10), digit_char (n mod 10)])"
| "float_body_2f (Infinite _) = ''inf''"
| "float_body_2f NaN = ''nan''"

definition format_2f :: "pyfloat \<Rightarrow> string" where
  \<comment> \<open>\<open>f"{x:.2f}"\<close>\<close>
  "format_2f x = (if float_sign x then CHR ''-'' # float_body_2f x else float_body_2f x)"

definition format_0_2f :: "nat \<Rightarrow> pyfloat \<Rightarrow> string" where
  \<comment> \<open>\<open>f"{x:0{w}.2f}"\<close>\<close>
  "format_0_2f w x = zero_pad w (float_sign x) (float_body_2f x)"

section \<open>Values, types and exceptions\<close>

text \<open>
  The values the validators are given: strings (from files and from the command line),
  ints, floats, and \<open>None\<close> as a value that is neither text nor a number. The expected
  types are the three that the field metadata of \<open>models.py\<close> names.
\<close>

datatype pyval = PyStr string | PyInt int | PyFloat pyfloat | PyNone

datatype pytype = TStr | TInt | TFloat

text \<open>
  An exception is its class and its message. The messages of the program are its own
  text; of a message that the interpreter writes, the constant part is kept and the
  printed operand is left out.
\<close>

datatype error =
    DataValidationError string
  | DataFactorError string
  | FileFormatError string
  | FileNotFoundError string
  | ValueError string
  | TypeError string
  | OverflowError string
  | IndexError string
  | AttributeError string
  | KeyError string
  | StopIteration string
  | OSError string

fun message :: "error \<Rightarrow> string" where
  \<comment> \<open>\<open>str(e)\<close>\<close>
  "message (DataValidationError m) = m"
| "message (DataFactorError m) = m"
| "message (FileFormatError m) = m"
| "message (FileNotFoundError m) = m"
| "message (ValueError m) = m"
| "message (TypeError m) = m"
| "message (OverflowError m) = m"
| "message (IndexError m) = m"
| "message (AttributeError m) = m"
| "message (KeyError m) = m"
| "message (StopIteration m) = m"
| "message (OSError m) = m"

definition quoted :: "string \<Rightarrow> string" where
  \<comment> \<open>the text between two apostrophes\<close>
  "quoted s = CHR 0x27 # s @ [CHR 0x27]"

fun class_repr :: "pytype \<Rightarrow> string" where
  \<comment> \<open>how a type prints in an f-string\<close>
  "class_repr TStr = ''<class '' @ quoted ''str'' @ ''>''"
| "class_repr TInt = ''<class '' @ quoted ''int'' @ ''>''"
| "class_repr TFloat = ''<class '' @ quoted ''float'' @ ''>''"

fun type_repr :: "pyval \<Rightarrow> string" where
  \<comment> \<open>\<open>f"{type(value)}"\<close>\<close>
  "type_repr (PyStr _) = class_repr TStr"
| "type_repr (PyInt _) = class_repr TInt"
| "type_repr (PyFloat _) = class_repr TFloat"
| "type_repr PyNone = ''<class '' @ quoted ''NoneType'' @ ''>''"

fun isinstance :: "pyval \<Rightarrow> pytype \<Rightarrow> bool" where
  "isinstance (PyStr _) TStr = True"
| "isinstance (PyInt _) TInt = True"
| "isinstance (PyFloat _) TFloat = True"
| "isinstance _ _ = False"

fun py_float :: "pyval \<Rightarrow> error + pyfloat" where
  \<comment> \<open>\<open>float(value)\<close>\<close>
  "py_float (PyStr s) =
     (case float_of_str s of
        None \<Rightarrow> Inl (ValueError ''could not convert string to float'')
      | Some x \<Rightarrow> Inr x)"
| "py_float (PyInt i) =
     (case float_of_int i of
        None \<Rightarrow> Inl (OverflowError ''int too large to convert to float'')
      | Some x \<Rightarrow> Inr x)"
| "py_float (PyFloat x) = Inr x"
| "py_float PyNone = Inl (TypeError ''float() argument must be a string or a real number'')"

fun py_int :: "pyval \<Rightarrow> error + int" where
  \<comment> \<open>\<open>int(value)\<close>; a float is truncated towards zero\<close>
  "py_int (PyStr s) =
     (case int_of_str s of
        None \<Rightarrow> Inl (ValueError ''invalid literal for int() with base 10'')
      | Some i \<Rightarrow> Inr i)"
| "py_int (PyInt i) = Inr i"
| "py_int (PyFloat (Finite neg q)) = Inr (if neg then - \<lfloor>q\<rfloor> else \<lfloor>q\<rfloor>)"
| "py_int (PyFloat (Infinite _)) = Inl (OverflowError ''cannot convert float infinity to integer'')"
| "py_int (PyFloat NaN) = Inl (ValueError ''cannot convert float NaN to integer'')"
| "py_int PyNone = Inl (TypeError ''int() argument must be a string, a bytes-like object or a real number'')"

section \<open>\<open>validation.py\<close>: \<open>DataValidator\<close>\<close>

definition ALLOWED_CURRENCIES :: "string set" where
  "ALLOWED_CURRENCIES = {''USD'', ''EUR'', ''GBP'', ''PLN''}"

definition validate_type :: "pyval \<Rightarrow> pytype \<Rightarrow> error + pyval" where
  \<comment> \<open>only a \<open>ValueError\<close> is caught and wrapped; any other exception of the conversion
      leaves the function as it is\<close>
  "validate_type val expected_type =
     (case expected_type of
        TFloat \<Rightarrow>
          (case py_float val of
             Inl (ValueError e) \<Rightarrow>
               Inl (DataValidationError (''Expected a float, got '' @ type_repr val @ '': '' @ e))
           | Inl other \<Rightarrow> Inl other
           | Inr x \<Rightarrow>
               if float_negative x
               then Inl (DataValidationError
                          (''Expected a float, got '' @ type_repr val @ '': The numbers cannot be negative''))
               else Inr val)
      | TInt \<Rightarrow>
          (case py_int val of
             Inl (ValueError e) \<Rightarrow>
               Inl (DataValidationError (''Expected an int, got '' @ type_repr val @ '': '' @ e))
           | Inl other \<Rightarrow> Inl other
           | Inr i \<Rightarrow>
               if i < 0
               then Inl (DataValidationError
                          (''Expected an int, got '' @ type_repr val @ '': The numbers cannot be negative''))
               else Inr val)
      | TStr \<Rightarrow>
          if \<not> isinstance val TStr
          then Inl (DataValidationError
                     (''Expected value type '' @ class_repr TStr @ '', but got '' @ type_repr val @ ''.''))
          else Inr val)"

fun formatted_value :: "pyval \<Rightarrow> nat \<Rightarrow> string" where
  \<comment> \<open>the three branches of \<open>validate_fixed_width\<close>\<close>
  "formatted_value (PyInt i) width = format_0d width i"
| "formatted_value (PyFloat x) width = format_0_2f width x"
| "formatted_value (PyStr s) width = py_rjust width CHR '' '' s"
| "formatted_value PyNone width = py_rjust width CHR '' '' ''None''"

definition validate_fixed_width :: "pyval \<Rightarrow> nat \<Rightarrow> error + string" where
  "validate_fixed_width val width =
     (let fv = formatted_value val width
      in if width < length fv
         then Inl (DataValidationError
                    (''Formatted value '' @ quoted fv @ '' exceeds maximum width of ''
                       @ str_of_int (int width) @ ''.''))
         else Inr fv)"

definition msg_line_count :: string where
  "msg_line_count = ''File must contain at least one header, one transaction, and one footer.''"

definition msg_line_length :: string where
  "msg_line_length = ''Each line must be exactly 120 characters long.''"

definition validate_file_structure :: "string list \<Rightarrow> error + unit" where
  "validate_file_structure lines =
     (if length lines < 3 then Inl (DataValidationError msg_line_count)
      else if list_ex (\<lambda>line. length (rstrip_crlf line) \<noteq> 120) lines
        then Inl (DataValidationError msg_line_length)
      else if \<not> startswith (hd lines) ''01'' \<or> \<not> startswith (last lines) ''03''
        then Inl (DataValidationError ''File must start with a header and end with a footer.'')
      else let transaction_lines = butlast (tl lines)
           in if list_ex (\<lambda>t. \<not> startswith t ''02'') transaction_lines
                then Inl (DataValidationError ''Each transaction must start with 02 id'')
              else if \<not> (1 \<le> length transaction_lines \<and> length transaction_lines \<le> 20000)
                then Inl (DataValidationError
                           ''The number of transaction records must be between 1 and 20,000.'')
              else Inr ())"

section \<open>Vocabulary of the statements\<close>

fun unpadded :: "pyval \<Rightarrow> string" where
  \<comment> \<open>the text of a value before any padding: \<open>f"{i:d}"\<close>, \<open>f"{x:.2f}"\<close>, \<open>f"{value}"\<close>\<close>
  "unpadded (PyInt i) = str_of_int i"
| "unpadded (PyFloat x) = format_2f x"
| "unpadded (PyStr s) = s"
| "unpadded PyNone = ''None''"

definition two_fraction_digits :: "string \<Rightarrow> bool" where
  \<comment> \<open>the text ends with a point and two digits\<close>
  "two_fraction_digits s =
     (3 \<le> length s \<and> s ! (length s - 3) = CHR ''.'' \<and>
      is_digit (s ! (length s - 2)) \<and> is_digit (s ! (length s - 1)))"

fun is_validation_error :: "error + 'a \<Rightarrow> bool" where
  "is_validation_error (Inl (DataValidationError _)) = True"
| "is_validation_error _ = False"



section \<open>\<open>models.py\<close>: the three records\<close>

text \<open>
  A record of the file after \<open>__post_init__\<close>: every field holds the text that
  \<open>validate_fixed_width\<close> returned for it. The field \<open>_field_id\<close> is a constant of the
  class and appears only in \<open>to_fixed_width_string\<close>.
\<close>

record header =
  name :: string
  surname :: string
  patronymic :: string
  address :: string

record transaction =
  counter :: string
  amount :: string
  currency :: string
  reserved :: string

record footer =
  total_counter :: string
  control_sum :: string
  reserved :: string

definition validate_member :: "pyval \<Rightarrow> pytype \<Rightarrow> nat \<Rightarrow> error + string" where
  \<comment> \<open>what \<open>validate_dataclass\<close> and \<open>validate_field\<close> do with one field: the type is
      checked on the value, and the value itself (not the converted number) is formatted\<close>
  "validate_member val expected_type fixed_width =
     (case validate_type val expected_type of
        Inl e \<Rightarrow> Inl e
      | Inr _ \<Rightarrow> validate_fixed_width val fixed_width)"

text \<open>
  The constructors take the keyword arguments in the order of the fields; \<open>__post_init__\<close>
  runs \<open>validate_dataclass\<close>, which visits the fields in that order and stops at the first
  exception.
\<close>

definition Header :: "pyval \<Rightarrow> pyval \<Rightarrow> pyval \<Rightarrow> pyval \<Rightarrow> error + header" where
  "Header n s p a =
     (case validate_member n TStr 28 of Inl e \<Rightarrow> Inl e | Inr n' \<Rightarrow>
     (case validate_member s TStr 30 of Inl e \<Rightarrow> Inl e | Inr s' \<Rightarrow>
     (case validate_member p TStr 30 of Inl e \<Rightarrow> Inl e | Inr p' \<Rightarrow>
     (case validate_member a TStr 30 of Inl e \<Rightarrow> Inl e | Inr a' \<Rightarrow>
        Inr \<lparr>name = n', surname = s', patronymic = p', address = a'\<rparr>))))"

definition Transaction :: "pyval \<Rightarrow> pyval \<Rightarrow> pyval \<Rightarrow> pyval \<Rightarrow> error + transaction" where
  "Transaction c a cur r =
     (case validate_member c TStr 6 of Inl e \<Rightarrow> Inl e | Inr c' \<Rightarrow>
     (case validate_member a TFloat 12 of Inl e \<Rightarrow> Inl e | Inr a' \<Rightarrow>
     (case validate_member cur TStr 3 of Inl e \<Rightarrow> Inl e | Inr cur' \<Rightarrow>
     (case validate_member r TStr 97 of Inl e \<Rightarrow> Inl e | Inr r' \<Rightarrow>
        Inr \<lparr>counter = c', amount = a', transaction.currency = cur', transaction.reserved = r'\<rparr>))))"

definition Footer :: "pyval \<Rightarrow> pyval \<Rightarrow> pyval \<Rightarrow> error + footer" where
  "Footer t c r =
     (case validate_member t TInt 6 of Inl e \<Rightarrow> Inl e | Inr t' \<Rightarrow>
     (case validate_member c TFloat 12 of Inl e \<Rightarrow> Inl e | Inr c' \<Rightarrow>
     (case validate_member r TStr 100 of Inl e \<Rightarrow> Inl e | Inr r' \<Rightarrow>
        Inr \<lparr>total_counter = t', control_sum = c', footer.reserved = r'\<rparr>)))"

definition header_to_fixed_width_string :: "header \<Rightarrow> string" where
  "header_to_fixed_width_string h = ''01'' @ name h @ surname h @ patronymic h @ address h"

definition transaction_to_fixed_width_string :: "transaction \<Rightarrow> string" where
  "transaction_to_fixed_width_string t =
     ''02'' @ counter t @ amount t @ transaction.currency t @ transaction.reserved t"

definition footer_to_fixed_width_string :: "footer \<Rightarrow> string" where
  "footer_to_fixed_width_string f = ''03'' @ total_counter f @ control_sum f @ footer.reserved f"

definition validate_field :: "footer \<Rightarrow> string \<Rightarrow> pyval \<Rightarrow> error + footer" where
  \<comment> \<open>\<open>validate_field\<close> on a footer, the only instance \<open>update_footer\<close> passes: the field
      is looked up by name, and it is assigned only after both checks have passed\<close>
  "validate_field instance field_name val =
     (if field_name = ''total_counter''
        then map_sum id (\<lambda>fv. instance\<lparr>total_counter := fv\<rparr>) (validate_member val TInt 6)
      else if field_name = ''control_sum''
        then map_sum id (\<lambda>fv. instance\<lparr>control_sum := fv\<rparr>) (validate_member val TFloat 12)
      else if field_name = ''reserved''
        then map_sum id (\<lambda>fv. instance\<lparr>footer.reserved := fv\<rparr>) (validate_member val TStr 100)
      else if field_name = ''_field_id'' then Inl (KeyError (quoted ''type''))
      else Inl (StopIteration []))"

section \<open>\<open>data_factory.py\<close>: \<open>DataFactory\<close>\<close>

text \<open>
  The dictionaries of the factory have fixed keys; they are tuples here, in the order of
  the keys. A parsed dictionary holds strings, a dictionary given to a constructor holds
  values.
\<close>

definition parse_header_data :: "string \<Rightarrow> error + string \<times> string \<times> string \<times> string" where
  "parse_header_data data =
     (if py_strip (slice 0 2 data) \<noteq> ''01''
      then Inl (DataValidationError (''Field ID for header must be '' @ quoted ''01'' @ ''.''))
      else Inr (py_strip (slice 2 30 data), py_strip (slice 30 60 data),
                py_strip (slice 60 90 data), py_strip (slice 90 120 data)))"

definition parse_transaction_data :: "string \<Rightarrow> error + string \<times> string \<times> string \<times> string" where
  "parse_transaction_data data =
     (if py_strip (slice 0 2 data) \<noteq> ''02''
      then Inl (DataValidationError (''Field ID for transaction must be '' @ quoted ''02'' @ ''.''))
      else Inr (py_strip (slice 2 8 data), py_strip (slice 8 20 data),
                py_strip (slice 20 23 data), py_strip (slice 23 120 data)))"

definition parse_footer_data :: "string \<Rightarrow> error + string \<times> string \<times> string" where
  "parse_footer_data data =
     (if py_strip (slice 0 2 data) \<noteq> ''03''
      then Inl (DataValidationError (''Field ID for footer must be '' @ quoted ''03'' @ ''.''))
      else Inr (py_strip (slice 2 8 data), py_strip (slice 8 20 data),
                py_strip (slice 20 120 data)))"

definition factory_error :: "string \<Rightarrow> error + 'a \<Rightarrow> error + 'a" where
  \<comment> \<open>the \<open>except DataValidationError\<close> clause of the three \<open>create_\<close> methods\<close>
  "factory_error what r =
     (case r of
        Inl (DataValidationError m) \<Rightarrow> Inl (DataFactorError (''Error creating '' @ what @ '': '' @ m))
      | _ \<Rightarrow> r)"

definition create_header :: "pyval \<times> pyval \<times> pyval \<times> pyval \<Rightarrow> error + header" where
  "create_header data = (case data of (n, s, p, a) \<Rightarrow> factory_error ''header'' (Header n s p a))"

definition create_transaction :: "pyval \<times> pyval \<times> pyval \<times> pyval \<Rightarrow> error + transaction" where
  "create_transaction data =
     (case data of (c, a, cur, r) \<Rightarrow> factory_error ''transaction'' (Transaction c a cur r))"

definition create_footer :: "pyval \<times> pyval \<times> pyval \<Rightarrow> error + footer" where
  "create_footer data = (case data of (t, c, r) \<Rightarrow> factory_error ''footer'' (Footer t c r))"

section \<open>The file system\<close>

text \<open>
  The files the program sees: a path leads to a regular file with its text, to a
  directory, or nowhere. Paths are compared as they are written. The directory of the
  program, \<open>FileOperations.current_directory\<close>, is fixed when the module is loaded.
\<close>

datatype entry = File string | Directory

text \<open>
  The operating system may refuse to write: for a path it may raise an \<open>OSError\<close> when
  the file is opened for writing (a file that must not be written), and the file stays
  as it is; or it may raise one when the text is written or the file is closed (a full
  disk), and then it is the operating system that decides what is left in the file. A
  fault holds the message of the error, and in the second case the text that is left.
\<close>

datatype fault = OpenFails string | WriteFails string string

record world =
  current_directory :: string
  files :: "string \<rightharpoonup> entry"
  write_faults :: "string \<rightharpoonup> fault"

definition path_join :: "string \<Rightarrow> string \<Rightarrow> string" where
  \<comment> \<open>\<open>os.path.join\<close> of two components: an absolute second component replaces the first\<close>
  "path_join a b =
     (if startswith b ''/'' then b
      else if a = [] \<or> last a = CHR ''/'' then a @ b
      else a @ ''/'' @ b)"

definition file_path :: "world \<Rightarrow> string \<Rightarrow> string" where
  \<comment> \<open>\<open>os.path.join(FileOperations.current_directory, 'files', filename)\<close>\<close>
  "file_path w fn = path_join (path_join (current_directory w) ''files'') fn"

definition validate_file_exists :: "world \<Rightarrow> string \<Rightarrow> error + unit" where
  \<comment> \<open>\<open>os.path.exists\<close> holds of files and of directories\<close>
  "validate_file_exists w fn =
     (if files w fn = None
      then Inl (FileNotFoundError (''No file found at the specified path: '' @ fn))
      else Inr ())"

fun universal_newlines :: "string \<Rightarrow> string" where
  \<comment> \<open>reading in text mode: a carriage return, with the line feed after it if there is
      one, is read as one line feed\<close>
  "universal_newlines [] = []"
| "universal_newlines [c] = [if c = CHR 0x0D then CHR 0x0A else c]"
| "universal_newlines (c # d # r) =
     (if c = CHR 0x0D
      then (if d = CHR 0x0A then CHR 0x0A # universal_newlines r
            else CHR 0x0A # universal_newlines (d # r))
      else c # universal_newlines (d # r))"

fun split_lines :: "string \<Rightarrow> string \<Rightarrow> string list" where
  \<comment> \<open>the lines of a text, each with its line feed; the first argument is the line being read\<close>
  "split_lines cur [] = (if cur = [] then [] else [cur])"
| "split_lines cur (c # cs) =
     (if c = CHR 0x0A then (cur @ [c]) # split_lines [] cs else split_lines (cur @ [c]) cs)"

definition readlines :: "string \<Rightarrow> string list" where
  "readlines content = split_lines [] (universal_newlines content)"

definition is_a_directory :: "string \<Rightarrow> error" where
  "is_a_directory p = OSError (''[Errno 21] Is a directory: '' @ quoted p)"

definition open_readlines :: "world \<Rightarrow> string \<Rightarrow> error + string list" where
  \<comment> \<open>\<open>open(file_path, 'r')\<close> followed by \<open>readlines()\<close>\<close>
  "open_readlines w p =
     (case files w p of
        None \<Rightarrow> Inl (FileNotFoundError (''[Errno 2] No such file or directory: '' @ quoted p))
      | Some Directory \<Rightarrow> Inl (is_a_directory p)
      | Some (File content) \<Rightarrow> Inr (readlines content))"

definition write_file :: "world \<Rightarrow> string \<Rightarrow> string \<Rightarrow> world" where
  \<comment> \<open>the file at the path after it was opened for writing and the text was written\<close>
  "write_file w p content = w\<lparr>files := (files w)(p \<mapsto> File content)\<rparr>"

section \<open>\<open>file_operations.py\<close>: \<open>FileOperations\<close>\<close>

record file_operations =
  filename :: string
  header :: "header option"
  transactions :: "transaction list"
  footer :: "footer option"
  is_loaded :: bool
  currency :: string

definition FileOperations :: "string \<Rightarrow> file_operations" where
  \<comment> \<open>\<open>__init__\<close>\<close>
  "FileOperations fn =
     \<lparr>filename = fn, header = None, transactions = [], footer = None, is_loaded = False,
      currency = []\<rparr>"

definition no_attribute :: "string \<Rightarrow> error" where
  \<comment> \<open>an attribute is read from \<open>None\<close>\<close>
  "no_attribute a = AttributeError (quoted ''NoneType'' @ '' object has no attribute '' @ quoted a)"

definition validate_and_set_currency ::
    "string list \<Rightarrow> file_operations \<Rightarrow> (error + unit) \<times> file_operations" where
  "validate_and_set_currency lines self =
     (if length lines < 2 then (Inl (IndexError ''list index out of range''), self)
      else case parse_transaction_data (lines ! 1) of
             Inl e \<Rightarrow> (Inl e, self)
           | Inr (c, a, cur, r) \<Rightarrow>
               if cur \<notin> ALLOWED_CURRENCIES
               then (Inl (DataValidationError (''Invalid currency in the first transaction: '' @ cur)), self)
               else (Inr (), self\<lparr>currency := cur\<rparr>))"

fun load_transactions :: "string list \<Rightarrow> file_operations \<Rightarrow> (error + unit) \<times> file_operations" where
  \<comment> \<open>the loop of \<open>read_file\<close> over \<open>lines[1:-1]\<close>: each record is appended as soon as it is
      created\<close>
  "load_transactions [] self = (Inr (), self)"
| "load_transactions (line # rest) self =
     (case parse_transaction_data line of
        Inl e \<Rightarrow> (Inl e, self)
      | Inr (c, a, cur, r) \<Rightarrow>
          if cur \<noteq> currency self
          then (Inl (DataValidationError
                      (''Currency mismatch found: '' @ cur @ '' does not match '' @ currency self)), self)
          else (case create_transaction (PyStr c, PyStr a, PyStr cur, PyStr r) of
                  Inl e \<Rightarrow> (Inl e, self)
                | Inr t \<Rightarrow> load_transactions rest (self\<lparr>transactions := transactions self @ [t]\<rparr>)))"

definition read_file_try :: "world \<Rightarrow> file_operations \<Rightarrow> (error + unit) \<times> file_operations" where
  \<comment> \<open>the body of the \<open>try\<close> statement of \<open>read_file\<close>\<close>
  "read_file_try w self =
     (case validate_file_exists w (file_path w (filename self)) of
        Inl e \<Rightarrow> (Inl e, self)
      | Inr _ \<Rightarrow>
     (case open_readlines w (file_path w (filename self)) of
        Inl e \<Rightarrow> (Inl e, self)
      | Inr lines \<Rightarrow>
     (case validate_and_set_currency lines self of
        (Inl e, self1) \<Rightarrow> (Inl e, self1)
      | (Inr _, self1) \<Rightarrow>
     (case validate_file_structure lines of
        Inl e \<Rightarrow> (Inl e, self1)
      | Inr _ \<Rightarrow>
     (case parse_header_data (hd lines) of
        Inl e \<Rightarrow> (Inl e, self1)
      | Inr (n, s, p, a) \<Rightarrow>
     (case create_header (PyStr n, PyStr s, PyStr p, PyStr a) of
        Inl e \<Rightarrow> (Inl e, self1)
      | Inr h \<Rightarrow>
     (case load_transactions (butlast (tl lines)) (self1\<lparr>header := Some h\<rparr>) of
        (Inl e, self2) \<Rightarrow> (Inl e, self2)
      | (Inr _, self2) \<Rightarrow>
     (case parse_footer_data (last lines) of
        Inl e \<Rightarrow> (Inl e, self2)
      | Inr (t, c, r) \<Rightarrow>
     (case create_footer (PyStr t, PyStr c, PyStr r) of
        Inl e \<Rightarrow> (Inl e, self2)
      | Inr f \<Rightarrow> (Inr (), self2\<lparr>footer := Some f, is_loaded := True\<rparr>))))))))))"

definition read_file_except :: "error \<Rightarrow> error" where
  \<comment> \<open>the \<open>except\<close> clauses of \<open>read_file\<close>, in their order\<close>
  "read_file_except e =
     (case e of
        FileNotFoundError m \<Rightarrow> e
      | DataValidationError m \<Rightarrow> FileFormatError (''Error validating file: '' @ m)
      | DataFactorError m \<Rightarrow> e
      | _ \<Rightarrow> FileFormatError (''Error reading or validating file: '' @ message e))"

definition clear :: "file_operations \<Rightarrow> file_operations" where
  \<comment> \<open>the five assignments under \<open>if self.is_loaded\<close>\<close>
  "clear self =
     self\<lparr>header := None, transactions := [], footer := None, is_loaded := False, currency := []\<rparr>"

definition read_file :: "world \<Rightarrow> file_operations \<Rightarrow> (error + unit) \<times> file_operations" where
  \<comment> \<open>a session that was loaded is emptied first; one that was not is taken as it is\<close>
  "read_file w self =
     (case read_file_try w (if is_loaded self then clear self else self) of
        (Inl e, self') \<Rightarrow> (Inl (read_file_except e), self')
      | (Inr u, self') \<Rightarrow> (Inr u, self'))"

definition save_file_try :: "world \<Rightarrow> file_operations \<Rightarrow> (error + unit) \<times> world" where
  \<comment> \<open>the body of the \<open>try\<close> statement of \<open>save_file\<close>: opening the file for writing empties
      it, and what was written before an exception of the program stays in it; the text
      is written when the file is closed, also when the block is left by an exception\<close>
  "save_file_try w self =
     (let p = file_path w (filename self)
      in case validate_file_exists w p of
           Inl e \<Rightarrow> (Inl e, w)
         | Inr _ \<Rightarrow>
        (case files w p of
           Some (File _) \<Rightarrow>
             (case write_faults w p of
                Some (OpenFails m) \<Rightarrow> (Inl (OSError m), w)
              | Some (WriteFails m rest) \<Rightarrow>
                  (case header self of
                     None \<Rightarrow> (Inl (no_attribute ''to_fixed_width_string''), write_file w p [])
                   | Some h \<Rightarrow> (Inl (OSError m), write_file w p rest))
              | None \<Rightarrow>
                  (case header self of
                     None \<Rightarrow> (Inl (no_attribute ''to_fixed_width_string''), write_file w p [])
                   | Some h \<Rightarrow>
                       let out = header_to_fixed_width_string h @ [CHR 0x0A]
                                 @ concat (map (\<lambda>t. transaction_to_fixed_width_string t @ [CHR 0x0A])
                                            (transactions self))
                       in (case footer self of
                             None \<Rightarrow> (Inl (no_attribute ''to_fixed_width_string''), write_file w p out)
                           | Some f \<Rightarrow>
                               (Inr (), write_file w p
                                          (out @ footer_to_fixed_width_string f @ [CHR 0x0A])))))
         | _ \<Rightarrow> (Inl (is_a_directory p), w)))"

definition save_file_except :: "error \<Rightarrow> error" where
  "save_file_except e =
     (case e of
        FileNotFoundError m \<Rightarrow> e
      | _ \<Rightarrow> FileFormatError (''Error reading or validating file: '' @ message e))"

definition save_file :: "world \<Rightarrow> file_operations \<Rightarrow> (error + unit) \<times> world" where
  "save_file w self =
     (case save_file_try w self of
        (Inl e, w') \<Rightarrow> (Inl (save_file_except e), w')
      | (Inr u, w') \<Rightarrow> (Inr u, w'))"

definition new_total_counter :: "int \<Rightarrow> string" where
  \<comment> \<open>from \<open>int(self.footer.total_counter)\<close>\<close>
  "new_total_counter n = format_0d 6 (n + 1)"

definition new_control_sum :: "pyfloat \<Rightarrow> pyfloat \<Rightarrow> string" where
  \<comment> \<open>from \<open>float(self.footer.control_sum)\<close> and \<open>float(amount)\<close>\<close>
  "new_control_sum x a = py_rjust 12 CHR ''0'' (format_2f (float_add x a))"

definition update_footer :: "file_operations \<Rightarrow> pyval \<Rightarrow> (error + unit) \<times> file_operations" where
  \<comment> \<open>both new texts are computed first; then \<open>control_sum\<close> is validated and assigned,
      and after it \<open>total_counter\<close>\<close>
  "update_footer self amnt =
     (case footer self of
        None \<Rightarrow> (Inl (no_attribute ''total_counter''), self)
      | Some f \<Rightarrow>
     (case py_int (PyStr (total_counter f)) of
        Inl e \<Rightarrow> (Inl e, self)
      | Inr n \<Rightarrow>
     (case py_float (PyStr (control_sum f)) of
        Inl e \<Rightarrow> (Inl e, self)
      | Inr x \<Rightarrow>
     (case py_float amnt of
        Inl e \<Rightarrow> (Inl e, self)
      | Inr a \<Rightarrow>
     (case validate_field f ''control_sum'' (PyStr (new_control_sum x a)) of
        Inl e \<Rightarrow> (Inl e, self)
      | Inr f1 \<Rightarrow>
     (case validate_field f1 ''total_counter'' (PyStr (new_total_counter n)) of
        Inl e \<Rightarrow> (Inl e, self\<lparr>footer := Some f1\<rparr>)
      | Inr f2 \<Rightarrow> (Inr (), self\<lparr>footer := Some f2\<rparr>)))))))"

section \<open>\<open>cli.py\<close>: \<open>CLI.do_add_transaction\<close>\<close>

definition add_transaction_except :: "error \<Rightarrow> error + string list" where
  \<comment> \<open>the two \<open>except\<close> clauses around the update: the message is printed, any other
      exception leaves the command\<close>
  "add_transaction_except e =
     (case e of
        DataFactorError m \<Rightarrow> Inr [''Failed to add transaction: '' @ m]
      | DataValidationError m \<Rightarrow> Inr [''DataValidation Failed: '' @ m]
      | _ \<Rightarrow> Inl e)"

definition do_add_transaction ::
    "world \<Rightarrow> file_operations option \<Rightarrow> string
       \<Rightarrow> (error + string list) \<times> file_operations option \<times> world" where
  \<comment> \<open>the command on the file system and on \<open>self.file_ops\<close>; the result is the lines it
      prints, or the exception that leaves it\<close>
  "do_add_transaction w file_ops line =
     (case py_split line of
        [] \<Rightarrow> (Inl (IndexError ''list index out of range''), file_ops, w)
      | amnt # _ \<Rightarrow>
     (case file_ops of
        None \<Rightarrow> (Inr [''please upload the file for editing''], file_ops, w)
      | Some self \<Rightarrow>
          if currency self = []
          then (Inr [''Currency not set. Load transactions or set currency first.''], file_ops, w)
          else
     (case validate_type (PyStr amnt) TFloat of
        Inl (DataValidationError m) \<Rightarrow> (Inr [m], file_ops, w)
      | Inl e \<Rightarrow> (Inl e, file_ops, w)
      | Inr _ \<Rightarrow>
     (case py_float (PyStr amnt) of
        Inl e \<Rightarrow> (Inl e, file_ops, w)
      | Inr x \<Rightarrow>
     (case create_transaction
             (PyStr (format_0d 6 (int (length (transactions self)) + 1)), PyFloat x,
              PyStr (currency self), PyStr (replicate 96 CHR '' '')) of
        Inl e \<Rightarrow> (add_transaction_except e, file_ops, w)
      | Inr t \<Rightarrow>
     (case update_footer (self\<lparr>transactions := transactions self @ [t]\<rparr>) (PyStr amnt) of
        (Inl e, self1) \<Rightarrow> (add_transaction_except e, Some self1, w)
      | (Inr _, self1) \<Rightarrow>
     (case save_file w self1 of
        (Inl e, w1) \<Rightarrow> (add_transaction_except e, Some self1, w1)
      | (Inr _, w1) \<Rightarrow> (Inr [], Some self1, w1))))))))"

section \<open>Vocabulary of the statements about files\<close>

definition record_lines :: "header \<Rightarrow> transaction list \<Rightarrow> footer \<Rightarrow> string list" where
  \<comment> \<open>the fixed-width texts of a header, of the transactions in their order, and of a footer\<close>
  "record_lines h ts f =
     header_to_fixed_width_string h # map transaction_to_fixed_width_string ts
       @ [footer_to_fixed_width_string f]"

definition text_of_lines :: "string list \<Rightarrow> string" where
  \<comment> \<open>a text in which every line is followed by one line feed\<close>
  "text_of_lines ls = concat (map (\<lambda>l. l @ [CHR 0x0A]) ls)"

definition currency_of :: "string \<Rightarrow> string" where
  \<comment> \<open>the currency that \<open>parse_transaction_data\<close> reads from a line\<close>
  "currency_of line = py_strip (slice 20 23 line)"

definition header_of_line :: "string \<Rightarrow> error + header" where
  \<comment> \<open>\<open>create_header(parse_header_data(line))\<close>\<close>
  "header_of_line line =
     (case parse_header_data line of
        Inl e \<Rightarrow> Inl e
      | Inr (n, s, p, a) \<Rightarrow> create_header (PyStr n, PyStr s, PyStr p, PyStr a))"

definition transaction_of_line :: "string \<Rightarrow> error + transaction" where
  \<comment> \<open>\<open>create_transaction(parse_transaction_data(line))\<close>\<close>
  "transaction_of_line line =
     (case parse_transaction_data line of
        Inl e \<Rightarrow> Inl e
      | Inr (c, a, cur, r) \<Rightarrow> create_transaction (PyStr c, PyStr a, PyStr cur, PyStr r))"

definition footer_of_line :: "string \<Rightarrow> error + footer" where
  \<comment> \<open>\<open>create_footer(parse_footer_data(line))\<close>\<close>
  "footer_of_line line =
     (case parse_footer_data line of
        Inl e \<Rightarrow> Inl e
      | Inr (t, c, r) \<Rightarrow> create_footer (PyStr t, PyStr c, PyStr r))"

definition at_entry :: "file_operations \<Rightarrow> file_operations" where
  \<comment> \<open>the session as the \<open>try\<close> statement of \<open>read_file\<close> finds it\<close>
  "at_entry self = (if is_loaded self then clear self else self)"

definition accepted :: "string \<Rightarrow> string \<Rightarrow> bool" where
  \<comment> \<open>the loop of \<open>read_file\<close> appends a record for the line: it has the currency of the
      session and its transaction is created\<close>
  "accepted cur line = (currency_of line = cur \<and> \<not> isl (transaction_of_line line))"

definition justified :: "nat \<Rightarrow> nat \<Rightarrow> string \<Rightarrow> bool" where
  \<comment> \<open>the field \<open>line[a:b]\<close> is its own text, stripped and padded with spaces on the left\<close>
  "justified a b line = (slice a b line = py_rjust (b - a) CHR '' '' (py_strip (slice a b line)))"

definition right_justified :: "string list \<Rightarrow> bool" where
  \<comment> \<open>every field of the header, of the transactions and of the footer is justified\<close>
  "right_justified lines =
     (justified 2 30 (hd lines) \<and> justified 30 60 (hd lines) \<and>
      justified 60 90 (hd lines) \<and> justified 90 120 (hd lines) \<and>
      (\<forall>l \<in> set (butlast (tl lines)).
         justified 2 8 l \<and> justified 8 20 l \<and> justified 20 23 l \<and> justified 23 120 l) \<and>
      justified 2 8 (last lines) \<and> justified 8 20 (last lines) \<and> justified 20 120 (last lines))"

section \<open>Example files\<close>

definition example_header_line :: string where
  "example_header_line =
     ''01'' @ py_rjust 28 CHR '' '' ''John'' @ py_rjust 30 CHR '' '' ''Smith''
       @ py_rjust 30 CHR '' '' ''Paul'' @ py_rjust 30 CHR '' '' ''1 Main Street''"

definition example_transaction_line :: string where
  "example_transaction_line = ''02000001000000100.00USD'' @ replicate 97 CHR '' ''"

definition example_footer_line :: string where
  "example_footer_line = ''03000001000000100.00'' @ replicate 100 CHR '' ''"

definition example_session :: file_operations where
  \<comment> \<open>the session after \<open>valid.txt\<close> below was loaded\<close>
  "example_session =
     \<lparr>filename = ''valid.txt'',
      header = Some \<lparr>name = py_rjust 28 CHR '' '' ''John'', surname = py_rjust 30 CHR '' '' ''Smith'',
                      patronymic = py_rjust 30 CHR '' '' ''Paul'',
                      address = py_rjust 30 CHR '' '' ''1 Main Street''\<rparr>,
      transactions = [\<lparr>counter = ''000001'', amount = ''000000100.00'',
                        transaction.currency = ''USD'',
                        transaction.reserved = replicate 97 CHR '' ''\<rparr>],
      footer = Some \<lparr>total_counter = ''000001'', control_sum = ''000000100.00'',
                      footer.reserved = replicate 100 CHR '' ''\<rparr>,
      is_loaded = True, currency = ''USD''\<rparr>"

definition world_with :: "string \<Rightarrow> string list \<Rightarrow> world" where
  \<comment> \<open>the program in \<open>/app\<close>, with one file of the given lines in its directory \<open>files\<close>,
      and an operating system that refuses nothing\<close>
  "world_with fn ls =
     \<lparr>current_directory = ''/app'',
      files = [''/app'' \<mapsto> Directory, ''/app/files'' \<mapsto> Directory,
               ''/app/files/'' @ fn \<mapsto> File (text_of_lines ls)],
      write_faults = Map.empty\<rparr>"

definition example_world :: world where
  "example_world =
     world_with ''valid.txt'' [example_header_line, example_transaction_line, example_footer_line]"

definition example_euro_line :: string where
  "example_euro_line = ''02000002000000050.00EUR'' @ replicate 97 CHR '' ''"

definition with_line_feeds :: "string list \<Rightarrow> string list" where
  \<comment> \<open>the lines as \<open>readlines\<close> returns them\<close>
  "with_line_feeds ls = map (\<lambda>l. l @ [CHR 0x0A]) ls"

definition example_bad_footer_line :: string where
  "example_bad_footer_line = ''03abcdef000000100.00'' @ replicate 100 CHR '' ''"

definition example_unknown_currency_line :: string where
  "example_unknown_currency_line = ''02000001000000100.00XYZ'' @ replicate 97 CHR '' ''"

section \<open>The structural validator\<close>

text \<open>
  C4 (as amended). Called on fewer than three lines, and so on exactly one line of length
  119, \<open>validate_file_structure\<close> fails with the line-count message: the count is checked
  before any line is measured.
\<close>

theorem validate_file_structure_count_first:
  "length lines < 3 \<Longrightarrow>
   validate_file_structure lines = Inl (DataValidationError msg_line_count)"
  by (simp add: validate_file_structure_def)

theorem validate_file_structure_count_first_witness:
  "length [''01'' @ replicate 117 CHR ''A''] < 3 \<and> length (''01'' @ replicate 117 CHR ''A'') = 119 \<and>
   validate_file_structure [''01'' @ replicate 117 CHR ''A''] = Inl (DataValidationError msg_line_count)"
  using validate_file_structure_count_first [of "[''01'' @ replicate 117 CHR ''A'']"] by simp

text \<open>
  C4 as the specification states it fails: one line of length 119 is not answered with
  the line-length message.
\<close>

theorem validate_file_structure_one_short_line:
  "length (''01'' @ replicate 117 CHR ''A'') = 119 \<and>
   validate_file_structure [''01'' @ replicate 117 CHR ''A''] \<noteq> Inl (DataValidationError msg_line_length) \<and>
   validate_file_structure [''01'' @ replicate 117 CHR ''A''] = Inl (DataValidationError msg_line_count)"
  by (simp add: validate_file_structure_def msg_line_count_def msg_line_length_def)

section \<open>The field validator\<close>

subsection \<open>Auxiliary facts\<close>

lemma digit_char_digit: "0 \<le> d \<Longrightarrow> d < 10 \<Longrightarrow> is_digit (digit_char d) \<and> digit_val (digit_char d) = d"
proof -
  assume "0 \<le> d" "d < 10"
  then have "d = 0 \<or> d = 1 \<or> d = 2 \<or> d = 3 \<or> d = 4 \<or> d = 5 \<or> d = 6 \<or> d = 7 \<or> d = 8 \<or> d = 9" by arith
  then show ?thesis
    by (elim disjE) (simp_all add: is_digit_def digit_char_def digit_val_def)
qed

lemma decimal_digits: "0 \<le> n \<Longrightarrow> list_all is_digit (decimal n) \<and> decimal n \<noteq> []"
proof (induction n rule: decimal.induct)
  case (1 n)
  show ?case
  proof (cases "n < 10")
    case True
    with 1(2) show ?thesis by (subst (1 2) decimal.simps) (simp add: digit_char_digit)
  next
    case False
    then have "0 \<le> n div 10" by simp
    with 1(1) False have ih: "list_all is_digit (decimal (n div 10))" by simp
    have "0 \<le> n mod 10" "n mod 10 < 10" by simp_all
    then have "is_digit (digit_char (n mod 10))" using digit_char_digit by blast
    with ih False show ?thesis by (subst (1 2) decimal.simps) simp
  qed
qed

lemma two_fraction_digits_snoc:
  "two_fraction_digits (p @ [CHR ''.'', a, b]) = (is_digit a \<and> is_digit b)"
  by (simp add: two_fraction_digits_def nth_append)

lemma float_body_finite:
  "\<exists>p a b. float_body_2f (Finite neg q) = p @ [CHR ''.'', a, b] \<and> is_digit a \<and> is_digit b"
proof -
  define n where "n = round_half_even (q * 100)"
  have a: "is_digit (digit_char (n mod 100 div 10))"
    using digit_char_digit [of "n mod 100 div 10"] by simp
  have b: "is_digit (digit_char (n mod 10))"
    using digit_char_digit [of "n mod 10"] by simp
  have "float_body_2f (Finite neg q) = decimal (n div 100) @ [CHR ''.'', digit_char (n mod 100 div 10), digit_char (n mod 10)]"
    by (simp add: n_def Let_def)
  with a b show ?thesis by blast
qed

lemma zero_pad_length: "length (zero_pad w neg body) = max w (length body + (if neg then 1 else 0))"
  by (auto simp: zero_pad_def)

lemma zero_pad_shape:
  "zero_pad w neg body = (if neg then ''-'' else []) @ replicate (w - (length body + (if neg then 1 else 0))) CHR ''0'' @ body"
  by (auto simp: zero_pad_def)

lemma str_of_int_length: "length (str_of_int i) = length (decimal \<bar>i\<bar>) + (if i < 0 then 1 else 0)"
  by (auto simp: str_of_int_def abs_if)

lemma format_2f_length: "length (format_2f x) = length (float_body_2f x) + (if float_sign x then 1 else 0)"
  by (auto simp: format_2f_def)

lemma formatted_value_length: "length (formatted_value v w) = max w (length (unpadded v))"
  by (cases v) (auto simp: format_0d_def format_0_2f_def zero_pad_length py_rjust_def str_of_int_length format_2f_length)

lemma vfw_error: "w < length (unpadded v) \<Longrightarrow> is_validation_error (validate_fixed_width v w)"
  by (simp add: validate_fixed_width_def Let_def formatted_value_length)

lemma vfw_ok: "length (unpadded v) \<le> w \<Longrightarrow> validate_fixed_width v w = Inr (formatted_value v w) \<and> length (formatted_value v w) = w"
  by (simp add: validate_fixed_width_def Let_def formatted_value_length)

lemma py_float_not_dve [simp]: "py_float v \<noteq> Inl (DataValidationError m)"
  by (cases v) (auto split: option.splits)

lemma py_int_not_dve [simp]: "py_int v \<noteq> Inl (DataValidationError m)"
proof (cases v)
  case (PyFloat x)
  then show ?thesis by (cases x) auto
qed (auto split: option.splits)

subsection \<open>\<open>validate_fixed_width\<close>\<close>

text \<open>
  C6 (as amended). For every value and width, \<open>validate_fixed_width\<close> raises a
  \<open>DataValidationError\<close> when the text of the value is longer than the width (it never
  truncates), and otherwise returns a string of exactly \<open>width\<close> characters: an int as its
  sign, zeros and its decimal digits; a float as its sign, zeros and its text to two
  decimals, which ends in a point and two digits when the float is finite (not-a-number
  and the infinities are the zero-padded words \<open>nan\<close> and \<open>inf\<close>); any other value as its
  text behind leading spaces.
\<close>

theorem validate_fixed_width_outcome:
  "(w < length (unpadded v) \<longrightarrow> is_validation_error (validate_fixed_width v w)) \<and>
   (length (unpadded v) \<le> w \<longrightarrow>
      (\<exists>s. validate_fixed_width v w = Inr s \<and> length s = w \<and>
           (case v of
              PyInt i \<Rightarrow> s = (if i < 0 then ''-'' else []) @ replicate (w - length (unpadded v)) CHR ''0'' @ decimal \<bar>i\<bar>
                          \<and> list_all is_digit (decimal \<bar>i\<bar>)
            | PyFloat x \<Rightarrow> s = (if float_sign x then ''-'' else []) @ replicate (w - length (unpadded v)) CHR ''0'' @ float_body_2f x
                            \<and> ((\<exists>neg q. x = Finite neg q) \<longrightarrow> two_fraction_digits s)
            | PyStr t \<Rightarrow> s = replicate (w - length t) CHR '' '' @ t
            | PyNone \<Rightarrow> s = replicate (w - 4) CHR '' '' @ ''None'')))"
proof (intro conjI impI)
  assume "w < length (unpadded v)" then show "is_validation_error (validate_fixed_width v w)" by (rule vfw_error)
next
  assume le: "length (unpadded v) \<le> w"
  note ok = vfw_ok [OF le]
  show "\<exists>s. validate_fixed_width v w = Inr s \<and> length s = w \<and>
           (case v of
              PyInt i \<Rightarrow> s = (if i < 0 then ''-'' else []) @ replicate (w - length (unpadded v)) CHR ''0'' @ decimal \<bar>i\<bar>
                          \<and> list_all is_digit (decimal \<bar>i\<bar>)
            | PyFloat x \<Rightarrow> s = (if float_sign x then ''-'' else []) @ replicate (w - length (unpadded v)) CHR ''0'' @ float_body_2f x
                            \<and> ((\<exists>neg q. x = Finite neg q) \<longrightarrow> two_fraction_digits s)
            | PyStr t \<Rightarrow> s = replicate (w - length t) CHR '' '' @ t
            | PyNone \<Rightarrow> s = replicate (w - 4) CHR '' '' @ ''None'')"
  proof (cases v)
    case (PyStr t)
    with ok show ?thesis by (simp add: py_rjust_def)
  next
    case (PyInt i)
    have "list_all is_digit (decimal \<bar>i\<bar>)" using decimal_digits [of "\<bar>i\<bar>"] by simp
    with ok PyInt show ?thesis
      by (simp add: format_0d_def zero_pad_shape str_of_int_length)
  next
    case (PyFloat x)
    have shape: "formatted_value v w = (if float_sign x then ''-'' else []) @ replicate (w - length (unpadded v)) CHR ''0'' @ float_body_2f x"
      using PyFloat by (simp add: format_0_2f_def zero_pad_shape format_2f_length)
    have "two_fraction_digits (formatted_value v w)" if "x = Finite neg q" for neg q
    proof -
      obtain p a b where pab: "float_body_2f (Finite neg q) = p @ [CHR ''.'', a, b]" "is_digit a" "is_digit b"
        using float_body_finite [of neg q] by blast
      have "formatted_value v w =
              ((if float_sign x then ''-'' else []) @ replicate (w - length (unpadded v)) CHR ''0'' @ p) @ [CHR ''.'', a, b]"
        unfolding shape that pab(1) by simp
      then show ?thesis
        by (simp only: two_fraction_digits_snoc pab(2,3) simp_thms)
    qed
    with ok PyFloat shape show ?thesis by auto
  next
    case PyNone
    with ok show ?thesis by (simp add: py_rjust_def)
  qed
qed

theorem validate_fixed_width_outcome_witness:
  "length (unpadded (PyFloat (Finite False 100))) \<le> 12 \<and>
   validate_fixed_width (PyFloat (Finite False 100)) 12 = Inr ''000000100.00'' \<and>
   two_fraction_digits ''000000100.00'' \<and>
   2 < length (unpadded (PyStr ''abc'')) \<and>
   is_validation_error (validate_fixed_width (PyStr ''abc'') 2)"
proof -
  have le: "length (unpadded (PyFloat (Finite False 100))) \<le> 12" by code_simp
  have ev: "validate_fixed_width (PyFloat (Finite False 100)) 12 = Inr ''000000100.00''" by code_simp
  have lt: "2 < length (unpadded (PyStr ''abc''))" by simp
  from validate_fixed_width_outcome [where v = "PyFloat (Finite False 100)" and w = 12] le ev
  have "two_fraction_digits ''000000100.00''" by auto
  moreover from validate_fixed_width_outcome [where v = "PyStr ''abc''" and w = 2] lt
  have "is_validation_error (validate_fixed_width (PyStr ''abc'') 2)" by blast
  ultimately show ?thesis using le ev lt by blast
qed

text \<open>
  C6 as the specification states it fails: a float that is not-a-number is accepted (it is
  not below zero) and formatted without any fraction digit.
\<close>

theorem validate_fixed_width_nan:
  "validate_type (PyFloat NaN) TFloat = Inr (PyFloat NaN) \<and>
   validate_fixed_width (PyFloat NaN) 12 = Inr ''000000000nan'' \<and>
   \<not> two_fraction_digits ''000000000nan''"
  by code_simp

subsection \<open>\<open>validate_type\<close>\<close>









section \<open>Saving\<close>

lemma save_file_try_file:
  "files w (file_path w (filename self)) = Some (File c) \<Longrightarrow>
   write_faults w (file_path w (filename self)) = None \<Longrightarrow>
   header self = Some h \<Longrightarrow> footer self = Some f \<Longrightarrow>
   save_file_try w self =
     (Inr (), write_file w (file_path w (filename self)) (text_of_lines (record_lines h (transactions self) f)))"
  by (simp add: save_file_try_def validate_file_exists_def Let_def text_of_lines_def record_lines_def comp_def)

lemma save_file_try_ok:
  "(fst (save_file_try w self) = Inr ()) =
     ((\<exists>c. files w (file_path w (filename self)) = Some (File c)) \<and>
      write_faults w (file_path w (filename self)) = None \<and>
      header self \<noteq> None \<and> footer self \<noteq> None)"
  by (auto simp: save_file_try_def validate_file_exists_def Let_def
           split: option.splits entry.splits fault.splits)

lemma save_file_fst: "(fst (save_file w self) = Inr ()) = (fst (save_file_try w self) = Inr ())"
  by (auto simp: save_file_def split: prod.splits sum.splits)

lemma save_file_try_errors:
  "fst (save_file_try w self) = Inl e \<Longrightarrow>
   (files w (file_path w (filename self)) = None \<and>
      e = FileNotFoundError (''No file found at the specified path: '' @ file_path w (filename self))) \<or>
   (files w (file_path w (filename self)) \<noteq> None \<and>
      (e = is_a_directory (file_path w (filename self)) \<or>
       e = no_attribute ''to_fixed_width_string'' \<or> (\<exists>m. e = OSError m)))"
  by (auto simp: save_file_try_def validate_file_exists_def Let_def
           split: option.splits entry.splits fault.splits if_splits)

lemma save_file_failure_kind:
  assumes "files w (file_path w (filename self)) \<noteq> None" and "fst (save_file w self) \<noteq> Inr ()"
  shows "\<exists>m. fst (save_file w self) = Inl (FileFormatError (''Error reading or validating file: '' @ m))"
proof -
  obtain r w' where t: "save_file_try w self = (r, w')" by (cases "save_file_try w self") auto
  with assms(2) obtain e where e: "r = Inl e" by (cases r) (auto simp: save_file_def)
  from save_file_try_errors [of w self e] t e assms(1)
  have "e = is_a_directory (file_path w (filename self)) \<or>
       e = no_attribute ''to_fixed_width_string'' \<or> (\<exists>m. e = OSError m)"
    by simp
  then have "\<exists>m. save_file_except e = FileFormatError (''Error reading or validating file: '' @ m)"
    by (auto simp: save_file_except_def is_a_directory_def no_attribute_def)
  with t e show ?thesis by (simp add: save_file_def)
qed

text \<open>
  C9 (as amended). With \<open>p\<close> the target path of the session:
  \<^item> when nothing exists at \<open>p\<close> itself, \<open>save_file\<close> raises \<open>FileNotFoundError\<close> and writes
    nothing, whether or not the directory of \<open>p\<close> exists;
  \<^item> it succeeds exactly when \<open>p\<close> leads to a regular file, the operating system refuses
    neither the opening nor the writing, and the session holds a header and a footer;
  \<^item> it then leaves in the file the text of the header, of each transaction in order and
    of the footer, one line each;
  \<^item> every other failure is a \<open>FileFormatError\<close> whose message starts with
    \<open>Error reading or validating file: \<close> and continues with the message of the exception
    it replaces: the \<open>OSError\<close> of a directory at \<open>p\<close>, the \<open>OSError\<close> of a refused opening
    (the file stays as it is), the \<open>OSError\<close> of a refused writing, or the
    \<open>AttributeError\<close> of a missing header or footer.
\<close>

theorem save_file_outcome:
  "(files w (file_path w (filename self)) = None \<longrightarrow>
      save_file w self =
        (Inl (FileNotFoundError (''No file found at the specified path: '' @ file_path w (filename self))), w)) \<and>
   (fst (save_file w self) = Inr ()) =
     ((\<exists>c. files w (file_path w (filename self)) = Some (File c)) \<and> write_faults w (file_path w (filename self)) = None \<and>
      header self \<noteq> None \<and> footer self \<noteq> None) \<and>
   (\<forall>c h f. files w (file_path w (filename self)) = Some (File c) \<and> write_faults w (file_path w (filename self)) = None \<and>
            header self = Some h \<and> footer self = Some f \<longrightarrow>
      save_file w self =
        (Inr (), write_file w (file_path w (filename self)) (text_of_lines (record_lines h (transactions self) f)))) \<and>
   (files w (file_path w (filename self)) \<noteq> None \<and> fst (save_file w self) \<noteq> Inr () \<longrightarrow>
      (\<exists>m. fst (save_file w self) = Inl (FileFormatError (''Error reading or validating file: '' @ m)))) \<and>
   (files w (file_path w (filename self)) = Some Directory \<longrightarrow>
      save_file w self = (Inl (FileFormatError (''Error reading or validating file: '' @ message (is_a_directory (file_path w (filename self))))), w)) \<and>
   (\<forall>c m. files w (file_path w (filename self)) = Some (File c) \<and> write_faults w (file_path w (filename self)) = Some (OpenFails m) \<longrightarrow>
      save_file w self = (Inl (FileFormatError (''Error reading or validating file: '' @ m)), w)) \<and>
   (\<forall>c m rest. files w (file_path w (filename self)) = Some (File c) \<and> write_faults w (file_path w (filename self)) = Some (WriteFails m rest) \<and>
               header self \<noteq> None \<longrightarrow>
      fst (save_file w self) = Inl (FileFormatError (''Error reading or validating file: '' @ m))) \<and>
   (\<forall>c. files w (file_path w (filename self)) = Some (File c) \<and> write_faults w (file_path w (filename self)) = None \<and>
        (header self = None \<or> footer self = None) \<longrightarrow>
      fst (save_file w self) =
        Inl (FileFormatError (''Error reading or validating file: '' @ message (no_attribute ''to_fixed_width_string''))))"
proof (intro conjI allI impI)
  assume "files w (file_path w (filename self)) = None"
  then show "save_file w self =
        (Inl (FileNotFoundError (''No file found at the specified path: '' @ file_path w (filename self))), w)"
    by (simp add: save_file_def save_file_try_def validate_file_exists_def Let_def save_file_except_def)
next
  show "(fst (save_file w self) = Inr ()) =
     ((\<exists>c. files w (file_path w (filename self)) = Some (File c)) \<and> write_faults w (file_path w (filename self)) = None \<and>
      header self \<noteq> None \<and> footer self \<noteq> None)"
    by (simp only: save_file_fst save_file_try_ok)
next
  fix c h f
  assume "files w (file_path w (filename self)) = Some (File c) \<and> write_faults w (file_path w (filename self)) = None \<and>
            header self = Some h \<and> footer self = Some f"
  then show "save_file w self =
        (Inr (), write_file w (file_path w (filename self)) (text_of_lines (record_lines h (transactions self) f)))"
    by (simp add: save_file_def save_file_try_file)
next
  assume "files w (file_path w (filename self)) \<noteq> None \<and> fst (save_file w self) \<noteq> Inr ()"
  then show "\<exists>m. fst (save_file w self) = Inl (FileFormatError (''Error reading or validating file: '' @ m))"
    using save_file_failure_kind by blast
next
  assume "files w (file_path w (filename self)) = Some Directory"
  then show "save_file w self = (Inl (FileFormatError (''Error reading or validating file: '' @ message (is_a_directory (file_path w (filename self))))), w)"
    by (simp add: save_file_def save_file_try_def validate_file_exists_def Let_def
                  save_file_except_def is_a_directory_def)
next
  fix c m
  assume "files w (file_path w (filename self)) = Some (File c) \<and> write_faults w (file_path w (filename self)) = Some (OpenFails m)"
  then show "save_file w self = (Inl (FileFormatError (''Error reading or validating file: '' @ m)), w)"
    by (simp add: save_file_def save_file_try_def validate_file_exists_def Let_def save_file_except_def)
next
  fix c m rest
  assume "files w (file_path w (filename self)) = Some (File c) \<and> write_faults w (file_path w (filename self)) = Some (WriteFails m rest) \<and>
               header self \<noteq> None"
  then show "fst (save_file w self) = Inl (FileFormatError (''Error reading or validating file: '' @ m))"
    by (auto simp: save_file_def save_file_try_def validate_file_exists_def Let_def save_file_except_def)
next
  fix c
  assume "files w (file_path w (filename self)) = Some (File c) \<and> write_faults w (file_path w (filename self)) = None \<and>
        (header self = None \<or> footer self = None)"
  then show "fst (save_file w self) =
        Inl (FileFormatError (''Error reading or validating file: '' @ message (no_attribute ''to_fixed_width_string'')))"
    by (auto simp: save_file_def save_file_try_def validate_file_exists_def Let_def
                   save_file_except_def no_attribute_def split: option.splits)
qed

theorem save_file_outcome_witness:
  "files example_world (file_path example_world (filename example_session)) =
     Some (File (text_of_lines [example_header_line, example_transaction_line, example_footer_line])) \<and>
   write_faults example_world (file_path example_world (filename example_session)) = None \<and>
   save_file example_world example_session =
     (Inr (), write_file example_world (file_path example_world (filename example_session))
                (text_of_lines [example_header_line, example_transaction_line, example_footer_line])) \<and>
   files example_world (file_path example_world (filename (example_session\<lparr>filename := ''new.txt''\<rparr>))) = None \<and>
   fst (save_file example_world (example_session\<lparr>filename := ''new.txt''\<rparr>)) =
     Inl (FileNotFoundError ''No file found at the specified path: /app/files/new.txt'') \<and>
   write_faults (example_world\<lparr>write_faults := [''/app/files/valid.txt'' \<mapsto> OpenFails ''[Errno 13] Permission denied'']\<rparr>) (file_path (example_world\<lparr>write_faults := [''/app/files/valid.txt'' \<mapsto> OpenFails ''[Errno 13] Permission denied'']\<rparr>) (filename example_session)) =
     Some (OpenFails ''[Errno 13] Permission denied'') \<and>
   save_file (example_world\<lparr>write_faults := [''/app/files/valid.txt'' \<mapsto> OpenFails ''[Errno 13] Permission denied'']\<rparr>) example_session =
     (Inl (FileFormatError ''Error reading or validating file: [Errno 13] Permission denied''), (example_world\<lparr>write_faults := [''/app/files/valid.txt'' \<mapsto> OpenFails ''[Errno 13] Permission denied'']\<rparr>)) \<and>
   footer (example_session\<lparr>footer := None\<rparr>) = None \<and>
   fst (save_file example_world (example_session\<lparr>footer := None\<rparr>)) =
     Inl (FileFormatError (''Error reading or validating file: '' @ message (no_attribute ''to_fixed_width_string'')))"
proof -
  let ?h = "\<lparr>name = py_rjust 28 CHR '' '' ''John'', surname = py_rjust 30 CHR '' '' ''Smith'',
             patronymic = py_rjust 30 CHR '' '' ''Paul'',
             address = py_rjust 30 CHR '' '' ''1 Main Street''\<rparr>"
  let ?f = "\<lparr>total_counter = ''000001'', control_sum = ''000000100.00'',
             footer.reserved = replicate 100 CHR '' ''\<rparr>"
  have a: "files example_world (file_path example_world (filename example_session)) =
     Some (File (text_of_lines [example_header_line, example_transaction_line, example_footer_line]))"
    by code_simp
  have af: "write_faults example_world (file_path example_world (filename example_session)) = None"
    by code_simp
  have h: "header example_session = Some ?h" by (simp add: example_session_def)
  have f: "footer example_session = Some ?f" by (simp add: example_session_def)
  have l: "record_lines ?h (transactions example_session) ?f = [example_header_line, example_transaction_line, example_footer_line]" by code_simp
  have n: "files example_world (file_path example_world (filename (example_session\<lparr>filename := ''new.txt''\<rparr>))) = None" by code_simp
  have np: "file_path example_world ''new.txt'' = ''/app/files/new.txt''" by code_simp
  have r: "files (example_world\<lparr>write_faults := [''/app/files/valid.txt'' \<mapsto> OpenFails ''[Errno 13] Permission denied'']\<rparr>) (file_path (example_world\<lparr>write_faults := [''/app/files/valid.txt'' \<mapsto> OpenFails ''[Errno 13] Permission denied'']\<rparr>) (filename example_session)) = Some (File (text_of_lines [example_header_line, example_transaction_line, example_footer_line]))"
    by code_simp
  have rf: "write_faults (example_world\<lparr>write_faults := [''/app/files/valid.txt'' \<mapsto> OpenFails ''[Errno 13] Permission denied'']\<rparr>) (file_path (example_world\<lparr>write_faults := [''/app/files/valid.txt'' \<mapsto> OpenFails ''[Errno 13] Permission denied'']\<rparr>) (filename example_session)) =
     Some (OpenFails ''[Errno 13] Permission denied'')"
    by code_simp
  have nf: "footer (example_session\<lparr>footer := None\<rparr>) = None" by simp
  have nfa: "files example_world (file_path example_world (filename (example_session\<lparr>footer := None\<rparr>))) = Some (File (text_of_lines [example_header_line, example_transaction_line, example_footer_line]))"
    by code_simp
  have nff: "write_faults example_world (file_path example_world (filename (example_session\<lparr>footer := None\<rparr>))) = None"
    by code_simp
  note A = save_file_outcome [of example_world example_session]
  note B = save_file_outcome [of example_world "(example_session\<lparr>filename := ''new.txt''\<rparr>)"]
  note C = save_file_outcome [of "(example_world\<lparr>write_faults := [''/app/files/valid.txt'' \<mapsto> OpenFails ''[Errno 13] Permission denied'']\<rparr>)" example_session]
  note D = save_file_outcome [of example_world "(example_session\<lparr>footer := None\<rparr>)"]
  from A [THEN conjunct2, THEN conjunct2, THEN conjunct1] a af h f
  have "save_file example_world example_session =
     (Inr (), write_file example_world (file_path example_world (filename example_session))
                (text_of_lines (record_lines ?h (transactions example_session) ?f)))"
    by blast
  then have s: "save_file example_world example_session =
     (Inr (), write_file example_world (file_path example_world (filename example_session))
                (text_of_lines [example_header_line, example_transaction_line, example_footer_line]))"
    by (simp only: l)
  from B [THEN conjunct1] n
  have "save_file example_world (example_session\<lparr>filename := ''new.txt''\<rparr>) =
        (Inl (FileNotFoundError (''No file found at the specified path: '' @ file_path example_world (filename (example_session\<lparr>filename := ''new.txt''\<rparr>)))), example_world)"
    by (rule mp)
  then have b: "fst (save_file example_world (example_session\<lparr>filename := ''new.txt''\<rparr>)) =
     Inl (FileNotFoundError ''No file found at the specified path: /app/files/new.txt'')"
    by (simp add: np)
  from C [THEN conjunct2, THEN conjunct2, THEN conjunct2, THEN conjunct2, THEN conjunct2, THEN conjunct1] r rf
  have "save_file (example_world\<lparr>write_faults := [''/app/files/valid.txt'' \<mapsto> OpenFails ''[Errno 13] Permission denied'']\<rparr>) example_session =
     (Inl (FileFormatError (''Error reading or validating file: '' @ ''[Errno 13] Permission denied'')), (example_world\<lparr>write_faults := [''/app/files/valid.txt'' \<mapsto> OpenFails ''[Errno 13] Permission denied'']\<rparr>))"
    by blast
  then have c: "save_file (example_world\<lparr>write_faults := [''/app/files/valid.txt'' \<mapsto> OpenFails ''[Errno 13] Permission denied'']\<rparr>) example_session =
     (Inl (FileFormatError ''Error reading or validating file: [Errno 13] Permission denied''), (example_world\<lparr>write_faults := [''/app/files/valid.txt'' \<mapsto> OpenFails ''[Errno 13] Permission denied'']\<rparr>))"
    by simp
  from D [THEN conjunct2, THEN conjunct2, THEN conjunct2, THEN conjunct2, THEN conjunct2, THEN conjunct2, THEN conjunct2] nfa nff nf
  have d: "fst (save_file example_world (example_session\<lparr>footer := None\<rparr>)) =
     Inl (FileFormatError (''Error reading or validating file: '' @ message (no_attribute ''to_fixed_width_string'')))"
    by blast
  from a af s n b rf c nf d show ?thesis by (intro conjI)
qed

text \<open>
  C9 as the specification states it fails: the directory that is to contain the file
  exists and no input or output fails, and yet a session with a header and a footer is
  not saved to a file that does not exist yet.
\<close>

theorem save_file_missing_target:
  "files example_world (path_join (current_directory example_world) ''files'') = Some Directory \<and>
   file_path example_world ''new.txt'' = ''/app/files/new.txt'' \<and>
   write_faults example_world ''/app/files/new.txt'' = None \<and>
   header (example_session\<lparr>filename := ''new.txt''\<rparr>) \<noteq> None \<and>
   footer (example_session\<lparr>filename := ''new.txt''\<rparr>) \<noteq> None \<and>
   fst (save_file example_world (example_session\<lparr>filename := ''new.txt''\<rparr>)) =
     Inl (FileNotFoundError ''No file found at the specified path: /app/files/new.txt'')"
  by code_simp

section \<open>Updating the footer\<close>

lemma validate_member_full:
  "w \<le> length s \<Longrightarrow> validate_member (PyStr s) t w = Inr r \<Longrightarrow> r = s"
  by (auto simp: validate_member_def validate_fixed_width_def Let_def py_rjust_def split: sum.splits if_splits)

lemma new_control_sum_length: "12 \<le> length (new_control_sum x a)"
  by (simp add: new_control_sum_def py_rjust_def)

lemma new_total_counter_length: "6 \<le> length (new_total_counter n)"
  by (simp add: new_total_counter_def format_0d_def zero_pad_length)

text \<open>
  C3 (as amended). When the footer is present and its two fields and the amount convert
  to numbers, \<open>update_footer\<close> computes \<open>total_counter\<close> as the current value plus one,
  zero-padded to six characters, and \<open>control_sum\<close> as the current value plus the amount,
  to two decimals and zero-padded to twelve characters. The new \<open>control_sum\<close> is
  validated and assigned first: if its validation fails, both fields keep their values and
  the error leaves the method. The new \<open>total_counter\<close> is validated next: if its
  validation fails, the error leaves the method, \<open>total_counter\<close> keeps its value, and
  \<open>control_sum\<close> already holds the new value.
\<close>

theorem update_footer_outcome:
  assumes "footer self = Some f"
    and "py_int (PyStr (total_counter f)) = Inr n"
    and "py_float (PyStr (control_sum f)) = Inr x"
    and "py_float amnt = Inr a"
  shows "update_footer self amnt =
     (case validate_member (PyStr (new_control_sum x a)) TFloat 12 of
        Inl e \<Rightarrow> (Inl e, self)
      | Inr _ \<Rightarrow>
          (case validate_member (PyStr (new_total_counter n)) TInt 6 of
             Inl e \<Rightarrow> (Inl e, self\<lparr>footer := Some (f\<lparr>control_sum := new_control_sum x a\<rparr>)\<rparr>)
           | Inr _ \<Rightarrow>
               (Inr (), self\<lparr>footer := Some (f\<lparr>control_sum := new_control_sum x a,
                                                total_counter := new_total_counter n\<rparr>)\<rparr>)))"
proof -
  have cs: "r = new_control_sum x a" if "validate_member (PyStr (new_control_sum x a)) TFloat 12 = Inr r" for r
    using validate_member_full [OF new_control_sum_length that] .
  have tc: "r = new_total_counter n" if "validate_member (PyStr (new_total_counter n)) TInt 6 = Inr r" for r
    using validate_member_full [OF new_total_counter_length that] .
  show ?thesis
    using assms
    by (auto simp: update_footer_def validate_field_def split: sum.splits dest!: cs tc)
qed


theorem update_footer_outcome_witness:
  "footer example_session =
     Some \<lparr>total_counter = ''000001'', control_sum = ''000000100.00'',
           footer.reserved = replicate 100 CHR '' ''\<rparr> \<and>
   py_int (PyStr ''000001'') = Inr 1 \<and>
   py_float (PyStr ''000000100.00'') = Inr (Finite False 100) \<and>
   py_float (PyStr ''50'') = Inr (Finite False 50) \<and>
   update_footer example_session (PyStr ''50'') =
     (Inr (), example_session\<lparr>footer :=
        Some \<lparr>total_counter = ''000002'', control_sum = ''000000150.00'',
              footer.reserved = replicate 100 CHR '' ''\<rparr>\<rparr>)"
proof -
  let ?f = "\<lparr>total_counter = ''000001'', control_sum = ''000000100.00'',
             footer.reserved = replicate 100 CHR '' ''\<rparr>"
  have f: "footer example_session = Some ?f" by (simp add: example_session_def)
  have n: "py_int (PyStr ''000001'') = Inr 1" by code_simp
  have x: "py_float (PyStr ''000000100.00'') = Inr (Finite False 100)" by code_simp
  have a: "py_float (PyStr ''50'') = Inr (Finite False 50)" by code_simp
  have cs: "new_control_sum (Finite False 100) (Finite False 50) = ''000000150.00''" by code_simp
  have tc: "new_total_counter 1 = ''000002''" by code_simp
  have vcs: "validate_member (PyStr ''000000150.00'') TFloat 12 = Inr ''000000150.00''" by code_simp
  have vtc: "validate_member (PyStr ''000002'') TInt 6 = Inr ''000002''" by code_simp
  have n': "py_int (PyStr (total_counter ?f)) = Inr 1" using n by simp
  have x': "py_float (PyStr (control_sum ?f)) = Inr (Finite False 100)" using x by simp
  have "update_footer example_session (PyStr ''50'') =
     (Inr (), example_session\<lparr>footer := Some (?f\<lparr>control_sum := ''000000150.00'',
                                                      total_counter := ''000002''\<rparr>)\<rparr>)"
    using update_footer_outcome [OF f n' x' a]
    by (simp only: cs tc vcs vtc sum.case)
  then have "update_footer example_session (PyStr ''50'') =
     (Inr (), example_session\<lparr>footer :=
        Some \<lparr>total_counter = ''000002'', control_sum = ''000000150.00'',
              footer.reserved = replicate 100 CHR '' ''\<rparr>\<rparr>)"
    by simp
  with f n x a show ?thesis by (intro conjI)
qed

text \<open>
  C3 as the specification states it fails: with a footer that counts 999999 records, the
  new counter has seven characters and is refused, and the footer is left with the new
  \<open>control_sum\<close>.
\<close>

theorem update_footer_control_sum_committed:
  "footer (example_session\<lparr>footer :=
             Some \<lparr>total_counter = ''999999'', control_sum = ''000000000.00'',
                   footer.reserved = replicate 100 CHR '' ''\<rparr>\<rparr>) =
     Some \<lparr>total_counter = ''999999'', control_sum = ''000000000.00'',
           footer.reserved = replicate 100 CHR '' ''\<rparr> \<and>
   fst (update_footer (example_session\<lparr>footer :=
             Some \<lparr>total_counter = ''999999'', control_sum = ''000000000.00'',
                   footer.reserved = replicate 100 CHR '' ''\<rparr>\<rparr>) (PyStr ''1'')) =
     Inl (DataValidationError
           (''Formatted value '' @ quoted ''1000000'' @ '' exceeds maximum width of 6.'')) \<and>
   footer (snd (update_footer (example_session\<lparr>footer :=
             Some \<lparr>total_counter = ''999999'', control_sum = ''000000000.00'',
                   footer.reserved = replicate 100 CHR '' ''\<rparr>\<rparr>) (PyStr ''1''))) =
     Some \<lparr>total_counter = ''999999'', control_sum = ''000000001.00'',
           footer.reserved = replicate 100 CHR '' ''\<rparr>"
  by code_simp

section \<open>Loading\<close>

lemma validate_and_set_currency_fields:
  "validate_and_set_currency lines self = (r, self') \<Longrightarrow>
   header self' = header self \<and> transactions self' = transactions self \<and>
   footer self' = footer self \<and> is_loaded self' = is_loaded self \<and> filename self' = filename self"
  by (auto simp: validate_and_set_currency_def split: if_splits sum.splits prod.splits)

lemma validate_and_set_currency_ok:
  "(validate_and_set_currency lines self = (Inr (), self')) =
   (2 \<le> length lines \<and> \<not> isl (parse_transaction_data (lines ! 1)) \<and>
    currency_of (lines ! 1) \<in> ALLOWED_CURRENCIES \<and>
    self' = self\<lparr>currency := currency_of (lines ! 1)\<rparr>)"
  by (auto simp: validate_and_set_currency_def parse_transaction_data_def currency_of_def)

lemma load_transactions_fields:
  "load_transactions ls self = (r, self') \<Longrightarrow>
   header self' = header self \<and> footer self' = footer self \<and>
   is_loaded self' = is_loaded self \<and> currency self' = currency self \<and> filename self' = filename self"
proof (induction ls arbitrary: self)
  case Nil
  then show ?case by simp
next
  case (Cons l ls)
  show ?case
  proof (cases "parse_transaction_data l")
    case (Inl e)
    with Cons.prems show ?thesis by simp
  next
    case (Inr d)
    obtain c a cur rs where d: "d = (c, a, cur, rs)" by (cases d) auto
    show ?thesis
    proof (cases "cur \<noteq> currency self")
      case True
      with Cons.prems Inr d show ?thesis by simp
    next
      case False
      show ?thesis
      proof (cases "create_transaction (PyStr c, PyStr a, PyStr cur, PyStr rs)")
        case (Inl e)
        with Cons.prems Inr d False show ?thesis by simp
      next
        case (Inr t)
        with Cons.prems \<open>parse_transaction_data l = Inr d\<close> d False
        have "load_transactions ls (self\<lparr>transactions := transactions self @ [t]\<rparr>) = (r, self')" by simp
        from Cons.IH [OF this] show ?thesis by simp
      qed
    qed
  qed
qed

lemma load_transactions_ok:
  "(load_transactions ls self = (Inr (), self')) =
   ((\<forall>l \<in> set ls. currency_of l = currency self \<and> \<not> isl (transaction_of_line l)) \<and>
    self' = self\<lparr>transactions := transactions self @ map (projr \<circ> transaction_of_line) ls\<rparr>)"
proof (induction ls arbitrary: self)
  case Nil
  then show ?case by auto
next
  case (Cons l ls)
  show ?case
  proof (cases "parse_transaction_data l")
    case (Inl e)
    then show ?thesis by (simp add: transaction_of_line_def)
  next
    case (Inr d)
    obtain c a cur rs where d: "d = (c, a, cur, rs)" by (cases d) auto
    have cur: "currency_of l = cur"
      using Inr d by (auto simp: parse_transaction_data_def currency_of_def split: if_splits)
    show ?thesis
    proof (cases "cur \<noteq> currency self")
      case True
      with Inr d cur show ?thesis by simp
    next
      case False
      show ?thesis
      proof (cases "create_transaction (PyStr c, PyStr a, PyStr cur, PyStr rs)")
        case (Inl e)
        with \<open>parse_transaction_data l = Inr d\<close> d False show ?thesis by (simp add: transaction_of_line_def)
      next
        case (Inr t)
        have tl: "transaction_of_line l = Inr t"
          using \<open>parse_transaction_data l = Inr d\<close> d Inr by (simp add: transaction_of_line_def)
        have "load_transactions (l # ls) self = load_transactions ls (self\<lparr>transactions := transactions self @ [t]\<rparr>)"
          using \<open>parse_transaction_data l = Inr d\<close> d False Inr by simp
        then show ?thesis
          using Cons.IH [of "self\<lparr>transactions := transactions self @ [t]\<rparr>"] cur False tl
          by simp
      qed
    qed
  qed
qed

lemma read_file_try_failure:
  "read_file_try w self = (Inl e, self') \<Longrightarrow>
   is_loaded self' = is_loaded self \<and> footer self' = footer self"
  unfolding read_file_try_def
  by (auto split: sum.splits prod.splits dest!: validate_and_set_currency_fields load_transactions_fields)


lemma open_readlines_exists:
  "open_readlines w p = Inr lines \<Longrightarrow> validate_file_exists w p = Inr ()"
  by (auto simp: open_readlines_def validate_file_exists_def split: option.splits entry.splits)

lemma read_file_try_lines:
  "read_file_try w self =
     (case validate_file_exists w (file_path w (filename self)) of
        Inl e \<Rightarrow> (Inl e, self)
      | Inr _ \<Rightarrow>
     (case open_readlines w (file_path w (filename self)) of
        Inl e \<Rightarrow> (Inl e, self)
      | Inr lines \<Rightarrow>
     (case validate_and_set_currency lines self of
        (Inl e, self1) \<Rightarrow> (Inl e, self1)
      | (Inr _, self1) \<Rightarrow>
     (case validate_file_structure lines of
        Inl e \<Rightarrow> (Inl e, self1)
      | Inr _ \<Rightarrow>
     (case header_of_line (hd lines) of
        Inl e \<Rightarrow> (Inl e, self1)
      | Inr h \<Rightarrow>
     (case load_transactions (butlast (tl lines)) (self1\<lparr>header := Some h\<rparr>) of
        (Inl e, self2) \<Rightarrow> (Inl e, self2)
      | (Inr _, self2) \<Rightarrow>
     (case footer_of_line (last lines) of
        Inl e \<Rightarrow> (Inl e, self2)
      | Inr f \<Rightarrow> (Inr (), self2\<lparr>footer := Some f, is_loaded := True\<rparr>))))))))"
  by (simp add: read_file_try_def header_of_line_def footer_of_line_def split: sum.splits prod.splits)

lemma read_file_try_success:
  assumes "read_file_try w self = (Inr (), self')"
  shows "\<exists>lines h f.
           open_readlines w (file_path w (filename self)) = Inr lines \<and>
           2 \<le> length lines \<and>
           currency_of (lines ! 1) \<in> ALLOWED_CURRENCIES \<and>
           validate_file_structure lines = Inr () \<and>
           header_of_line (hd lines) = Inr h \<and>
           (\<forall>l \<in> set (butlast (tl lines)).
              currency_of l = currency_of (lines ! 1) \<and> \<not> isl (transaction_of_line l)) \<and>
           footer_of_line (last lines) = Inr f \<and>
           self' = self\<lparr>currency := currency_of (lines ! 1), header := Some h,
                         transactions := transactions self
                           @ map (projr \<circ> transaction_of_line) (butlast (tl lines)),
                         footer := Some f, is_loaded := True\<rparr>"
  using assms unfolding read_file_try_lines
  by (auto split: sum.splits prod.splits simp: validate_and_set_currency_ok load_transactions_ok)

lemma interior_second:
  assumes "3 \<le> length lines"
  shows "lines ! 1 \<in> set (butlast (tl lines))"
proof -
  obtain a b c r where "lines = a # b # c # r"
    using assms by (cases lines; cases "tl lines"; cases "tl (tl lines)") auto
  then show ?thesis by simp
qed

lemma validate_file_structure_length: "validate_file_structure lines = Inr () \<Longrightarrow> 3 \<le> length lines"
  by (auto simp: validate_file_structure_def split: if_splits)

lemma transaction_of_line_parses:
  "\<not> isl (transaction_of_line l) \<Longrightarrow> \<not> isl (parse_transaction_data l)"
  by (auto simp: transaction_of_line_def split: sum.splits)

lemma read_file_try_accepts:
  assumes "open_readlines w (file_path w (filename self)) = Inr lines"
    and "validate_file_structure lines = Inr ()"
    and "currency_of (lines ! 1) \<in> ALLOWED_CURRENCIES"
    and "header_of_line (hd lines) = Inr h"
    and "\<forall>l \<in> set (butlast (tl lines)).
              currency_of l = currency_of (lines ! 1) \<and> \<not> isl (transaction_of_line l)"
    and "footer_of_line (last lines) = Inr f"
  shows "read_file_try w self =
           (Inr (), self\<lparr>currency := currency_of (lines ! 1), header := Some h,
                         transactions := transactions self
                           @ map (projr \<circ> transaction_of_line) (butlast (tl lines)),
                         footer := Some f, is_loaded := True\<rparr>)"
proof -
  have len: "3 \<le> length lines" using assms(2) by (rule validate_file_structure_length)
  have "\<not> isl (transaction_of_line (lines ! 1))"
    using interior_second [OF len] assms(5) by blast
  then have p: "\<not> isl (parse_transaction_data (lines ! 1))" by (rule transaction_of_line_parses)
  have c: "validate_and_set_currency lines self = (Inr (), self\<lparr>currency := currency_of (lines ! 1)\<rparr>)"
    using len p assms(3) by (simp add: validate_and_set_currency_ok)
  have l: "load_transactions (butlast (tl lines)) (self\<lparr>currency := currency_of (lines ! 1), header := Some h\<rparr>) =
        (Inr (), self\<lparr>currency := currency_of (lines ! 1), header := Some h,
                         transactions := transactions self
                           @ map (projr \<circ> transaction_of_line) (butlast (tl lines))\<rparr>)"
    using assms(5) by (simp add: load_transactions_ok)
  show ?thesis
    using assms(1,2,4,6) open_readlines_exists [OF assms(1)] c l
    unfolding read_file_try_lines
    by simp
qed


lemma read_file_fst: "(fst (read_file w self) = Inr ()) = (fst (read_file_try w (if is_loaded self then clear self else self)) = Inr ())"
  by (auto simp: read_file_def split: prod.splits sum.splits)

lemma read_file_snd: "snd (read_file w self) = snd (read_file_try w (if is_loaded self then clear self else self))"
  by (auto simp: read_file_def split: prod.splits sum.splits)

lemma read_file_isl: "isl (fst (read_file w self)) = (fst (read_file w self) \<noteq> Inr ())"
  by (cases "fst (read_file w self)") auto

text \<open>
  C10. A file that exists, whose first transaction names an allowed currency, whose
  structure is valid, and whose header, transactions (all in that currency) and footer
  are each created without an error, is loaded: \<open>read_file\<close> returns, \<open>is_loaded\<close> is set and
  the footer of the session is the footer of the file. No condition relates the footer to
  the transactions; the example after it is a file whose footer counts nine records and
  sums 555.55 over one transaction of 100.00.
\<close>

theorem read_file_no_cross_check:
  assumes "open_readlines w (file_path w (filename self)) = Inr lines"
    and "validate_file_structure lines = Inr ()"
    and "currency_of (lines ! 1) \<in> ALLOWED_CURRENCIES"
    and "header_of_line (hd lines) = Inr h"
    and "\<forall>l \<in> set (butlast (tl lines)).
              currency_of l = currency_of (lines ! 1) \<and> \<not> isl (transaction_of_line l)"
    and "footer_of_line (last lines) = Inr f"
  shows "fst (read_file w self) = Inr () \<and> is_loaded (snd (read_file w self)) \<and>
         footer (snd (read_file w self)) = Some f"
proof -
  let ?s = "if is_loaded self then clear self else self"
  have fn: "filename ?s = filename self" by (simp add: clear_def)
  have "open_readlines w (file_path w (filename ?s)) = Inr lines" using assms(1) fn by simp
  from read_file_try_accepts [OF this assms(2-6)]
  show ?thesis by (simp add: read_file_def)
qed

theorem read_file_no_cross_check_witness:
  "open_readlines (world_with ''data.txt'' [example_header_line, example_transaction_line, ''03000009000000555.55'' @ replicate 100 CHR '' '']) (file_path (world_with ''data.txt'' [example_header_line, example_transaction_line, ''03000009000000555.55'' @ replicate 100 CHR '' '']) (filename (FileOperations ''data.txt''))) = Inr (map (\<lambda>l. l @ [CHR 0x0A]) [example_header_line, example_transaction_line, ''03000009000000555.55'' @ replicate 100 CHR '' '']) \<and>
   fst (read_file (world_with ''data.txt'' [example_header_line, example_transaction_line, ''03000009000000555.55'' @ replicate 100 CHR '' '']) (FileOperations ''data.txt'')) = Inr () \<and>
   is_loaded (snd (read_file (world_with ''data.txt'' [example_header_line, example_transaction_line, ''03000009000000555.55'' @ replicate 100 CHR '' '']) (FileOperations ''data.txt''))) \<and>
   footer (snd (read_file (world_with ''data.txt'' [example_header_line, example_transaction_line, ''03000009000000555.55'' @ replicate 100 CHR '' '']) (FileOperations ''data.txt''))) =
     Some \<lparr>total_counter = ''000009'', control_sum = ''000000555.55'',
           footer.reserved = replicate 100 CHR '' ''\<rparr> \<and>
   map amount (transactions (snd (read_file (world_with ''data.txt'' [example_header_line, example_transaction_line, ''03000009000000555.55'' @ replicate 100 CHR '' '']) (FileOperations ''data.txt'')))) = [''000000100.00'']"
proof -
  let ?f = "\<lparr>total_counter = ''000009'', control_sum = ''000000555.55'',
           footer.reserved = replicate 100 CHR '' ''\<rparr>"
  let ?h = "\<lparr>name = py_rjust 28 CHR '' '' ''John'', surname = py_rjust 30 CHR '' '' ''Smith'',
             patronymic = py_rjust 30 CHR '' '' ''Paul'',
             address = py_rjust 30 CHR '' '' ''1 Main Street''\<rparr>"
  have 1: "open_readlines (world_with ''data.txt'' [example_header_line, example_transaction_line, ''03000009000000555.55'' @ replicate 100 CHR '' '']) (file_path (world_with ''data.txt'' [example_header_line, example_transaction_line, ''03000009000000555.55'' @ replicate 100 CHR '' '']) (filename (FileOperations ''data.txt''))) = Inr (map (\<lambda>l. l @ [CHR 0x0A]) [example_header_line, example_transaction_line, ''03000009000000555.55'' @ replicate 100 CHR '' ''])"
    by code_simp
  have 2: "validate_file_structure (map (\<lambda>l. l @ [CHR 0x0A]) [example_header_line, example_transaction_line, ''03000009000000555.55'' @ replicate 100 CHR '' '']) = Inr ()" by code_simp
  have 3: "currency_of (map (\<lambda>l. l @ [CHR 0x0A]) [example_header_line, example_transaction_line, ''03000009000000555.55'' @ replicate 100 CHR '' ''] ! 1) \<in> ALLOWED_CURRENCIES" by code_simp
  have 4: "header_of_line (hd (map (\<lambda>l. l @ [CHR 0x0A]) [example_header_line, example_transaction_line, ''03000009000000555.55'' @ replicate 100 CHR '' ''])) = Inr ?h" by code_simp
  have 5: "\<forall>l \<in> set (butlast (tl (map (\<lambda>l. l @ [CHR 0x0A]) [example_header_line, example_transaction_line, ''03000009000000555.55'' @ replicate 100 CHR '' '']))).
              currency_of l = currency_of (map (\<lambda>l. l @ [CHR 0x0A]) [example_header_line, example_transaction_line, ''03000009000000555.55'' @ replicate 100 CHR '' ''] ! 1) \<and> \<not> isl (transaction_of_line l)"
    by code_simp
  have 6: "footer_of_line (last (map (\<lambda>l. l @ [CHR 0x0A]) [example_header_line, example_transaction_line, ''03000009000000555.55'' @ replicate 100 CHR '' ''])) = Inr ?f" by code_simp
  have 7: "map amount (transactions (snd (read_file (world_with ''data.txt'' [example_header_line, example_transaction_line, ''03000009000000555.55'' @ replicate 100 CHR '' '']) (FileOperations ''data.txt'')))) = [''000000100.00'']" by code_simp
  from read_file_no_cross_check [OF 1 2 3 4 5 6] 1 7 show ?thesis by (intro conjI) simp_all
qed

lemma parse_transaction_currency:
  "parse_transaction_data l = Inr (c, a, cur, r) \<Longrightarrow> cur = currency_of l"
  by (auto simp: parse_transaction_data_def currency_of_def split: if_splits)

lemma load_transactions_accepted:
  assumes "accepted (currency self) x"
  shows "load_transactions (x # xs) self =
         load_transactions xs (self\<lparr>transactions := transactions self @ [projr (transaction_of_line x)]\<rparr>)"
proof -
  from assms have c: "currency_of x = currency self" and t: "\<not> isl (transaction_of_line x)"
    by (simp_all add: accepted_def)
  from t obtain d where d: "parse_transaction_data x = Inr d"
    by (cases "parse_transaction_data x") (auto simp: transaction_of_line_def)
  obtain c' a cur r where dd: "d = (c', a, cur, r)" by (cases d) auto
  from d dd have cur: "cur = currency_of x" using parse_transaction_currency by blast
  from t d dd obtain tr where tr: "create_transaction (PyStr c', PyStr a, PyStr cur, PyStr r) = Inr tr"
    by (cases "create_transaction (PyStr c', PyStr a, PyStr cur, PyStr r)") (auto simp: transaction_of_line_def)
  then have "transaction_of_line x = Inr tr" using d dd by (simp add: transaction_of_line_def)
  then show ?thesis using d dd cur c tr by simp
qed

lemma load_transactions_rejected:
  assumes "\<not> accepted (currency self) x"
  shows "\<exists>e. load_transactions (x # xs) self = (Inl e, self)"
proof (cases "parse_transaction_data x")
  case (Inl e)
  then show ?thesis by simp
next
  case (Inr d)
  obtain c' a cur r where dd: "d = (c', a, cur, r)" by (cases d) auto
  from Inr dd have cur: "cur = currency_of x" using parse_transaction_currency by blast
  show ?thesis
  proof (cases "cur = currency self")
    case False
    with Inr dd show ?thesis by simp
  next
    case True
    with assms cur have "isl (transaction_of_line x)" by (simp add: accepted_def)
    then obtain e where "create_transaction (PyStr c', PyStr a, PyStr cur, PyStr r) = Inl e"
      using Inr dd by (cases "create_transaction (PyStr c', PyStr a, PyStr cur, PyStr r)")
                      (auto simp: transaction_of_line_def)
    with Inr dd True show ?thesis by simp
  qed
qed

lemma load_transactions_state:
  "load_transactions ls self = (r, self') \<Longrightarrow>
   self' = self\<lparr>transactions := transactions self
                  @ map (projr \<circ> transaction_of_line) (takeWhile (accepted (currency self)) ls)\<rparr>"
proof (induction ls arbitrary: self)
  case Nil
  then show ?case by simp
next
  case (Cons x xs)
  show ?case
  proof (cases "accepted (currency self) x")
    case True
    from Cons.prems have "load_transactions xs (self\<lparr>transactions := transactions self @ [projr (transaction_of_line x)]\<rparr>) = (r, self')"
      by (simp only: load_transactions_accepted [OF True])
    from Cons.IH [OF this] True show ?thesis by simp
  next
    case False
    from load_transactions_rejected [OF False, of xs] Cons.prems False show ?thesis by auto
  qed
qed

lemma load_transactions_mismatch:
  "dropWhile (accepted (currency self)) ls = l # rest \<Longrightarrow>
   \<not> isl (parse_transaction_data l) \<Longrightarrow> currency_of l \<noteq> currency self \<Longrightarrow>
   fst (load_transactions ls self) =
     Inl (DataValidationError
           (''Currency mismatch found: '' @ currency_of l @ '' does not match '' @ currency self))"
proof (induction ls arbitrary: self)
  case Nil
  then show ?case by simp
next
  case (Cons x xs)
  show ?case
  proof (cases "accepted (currency self) x")
    case True
    let ?s = "self\<lparr>transactions := transactions self @ [projr (transaction_of_line x)]\<rparr>"
    have c: "currency ?s = currency self" by simp
    from Cons.prems(1) True have d: "dropWhile (accepted (currency ?s)) xs = l # rest" by simp
    have n: "currency_of l \<noteq> currency ?s" using Cons.prems(3) by simp
    have "fst (load_transactions xs ?s) =
        Inl (DataValidationError
              (''Currency mismatch found: '' @ currency_of l @ '' does not match '' @ currency ?s))"
      by (rule Cons.IH [OF d Cons.prems(2) n])
    then show ?thesis by (simp only: load_transactions_accepted [OF True] c)
  next
    case False
    with Cons.prems(1) have x: "x = l" by simp
    from Cons.prems(2) obtain d where d: "parse_transaction_data l = Inr d"
      by (cases "parse_transaction_data l") auto
    obtain c' a cur r where dd: "d = (c', a, cur, r)" by (cases d) auto
    from d dd have "cur = currency_of l" using parse_transaction_currency by blast
    with d dd Cons.prems(3) x show ?thesis by simp
  qed
qed


lemma validate_and_set_currency_cases:
  "(fst (validate_and_set_currency lines self) = Inr () \<and>
      validate_and_set_currency lines self = (Inr (), self\<lparr>currency := currency_of (lines ! 1)\<rparr>) \<and>
      2 \<le> length lines \<and> \<not> isl (parse_transaction_data (lines ! 1)) \<and>
      currency_of (lines ! 1) \<in> ALLOWED_CURRENCIES) \<or>
   (\<exists>e. validate_and_set_currency lines self = (Inl e, self))"
  by (auto simp: validate_and_set_currency_def parse_transaction_data_def currency_of_def)

lemma validate_and_set_currency_invalid:
  "2 \<le> length lines \<Longrightarrow> \<not> isl (parse_transaction_data (lines ! 1)) \<Longrightarrow>
   currency_of (lines ! 1) \<notin> ALLOWED_CURRENCIES \<Longrightarrow>
   validate_and_set_currency lines self =
     (Inl (DataValidationError
            (''Invalid currency in the first transaction: '' @ currency_of (lines ! 1))), self)"
  by (auto simp: validate_and_set_currency_def parse_transaction_data_def currency_of_def
           split: if_splits)

lemma read_file_try_unread:
  "isl (open_readlines w (file_path w (filename self))) \<Longrightarrow> snd (read_file_try w self) = self"
  by (auto simp: read_file_try_lines split: sum.splits prod.splits)

lemma read_file_try_currency_refused:
  assumes "open_readlines w (file_path w (filename self)) = Inr lines"
    and "validate_and_set_currency lines self = (Inl e, self)"
  shows "read_file_try w self = (Inl e, self)"
  using assms open_readlines_exists [OF assms(1)] by (simp add: read_file_try_lines)

lemma read_file_try_before_records:
  assumes "open_readlines w (file_path w (filename self)) = Inr lines"
    and "fst (validate_and_set_currency lines self) = Inr ()"
    and "validate_file_structure lines \<noteq> Inr () \<or> isl (header_of_line (hd lines))"
  shows "snd (read_file_try w self) = self\<lparr>currency := currency_of (lines ! 1)\<rparr>"
proof -
  from validate_and_set_currency_cases [of lines self] assms(2)
  have c: "validate_and_set_currency lines self = (Inr (), self\<lparr>currency := currency_of (lines ! 1)\<rparr>)"
    by auto
  show ?thesis
    using assms(1,3) open_readlines_exists [OF assms(1)] c
    by (auto simp: read_file_try_lines split: sum.splits prod.splits)
qed

lemma read_file_try_records:
  assumes "open_readlines w (file_path w (filename self)) = Inr lines"
    and "fst (validate_and_set_currency lines self) = Inr ()"
    and "validate_file_structure lines = Inr ()"
    and "header_of_line (hd lines) = Inr h"
  shows "fst (read_file_try w self) \<noteq> Inr () \<longrightarrow>
           fst (read_file_try w self) =
             (if list_all (accepted (currency_of (lines ! 1))) (butlast (tl lines))
              then map_sum id (\<lambda>f. ()) (footer_of_line (last lines))
              else fst (load_transactions (butlast (tl lines))
                          (self\<lparr>currency := currency_of (lines ! 1), header := Some h\<rparr>))) \<and>
           snd (read_file_try w self) =
             self\<lparr>currency := currency_of (lines ! 1), header := Some h,
                   transactions := transactions self
                     @ map (projr \<circ> transaction_of_line)
                         (takeWhile (accepted (currency_of (lines ! 1))) (butlast (tl lines)))\<rparr>"
proof -
  let ?s1 = "self\<lparr>currency := currency_of (lines ! 1)\<rparr>"
  let ?s2 = "?s1\<lparr>header := Some h\<rparr>"
  from validate_and_set_currency_cases [of lines self] assms(2)
  have c: "validate_and_set_currency lines self = (Inr (), ?s1)" by auto
  obtain r s3 where l: "load_transactions (butlast (tl lines)) ?s2 = (r, s3)"
    by (cases "load_transactions (butlast (tl lines)) ?s2") auto
  from load_transactions_state [OF l]
  have s3: "s3 = ?s2\<lparr>transactions := transactions self
                     @ map (projr \<circ> transaction_of_line)
                         (takeWhile (accepted (currency_of (lines ! 1))) (butlast (tl lines)))\<rparr>"
    by simp
  let ?X = "?s2\<lparr>transactions := transactions ?s2
                     @ map (projr \<circ> transaction_of_line) (butlast (tl lines))\<rparr>"
  have "(load_transactions (butlast (tl lines)) ?s2 = (Inr (), ?X)) =
        (\<forall>x \<in> set (butlast (tl lines)). currency_of x = currency ?s2 \<and> \<not> isl (transaction_of_line x))"
    using load_transactions_ok [of "butlast (tl lines)" ?s2 ?X] by simp
  moreover have "r = Inr () \<Longrightarrow> s3 = ?X"
    using l load_transactions_ok [of "butlast (tl lines)" ?s2 s3] by simp
  ultimately have all: "(r = Inr ()) = list_all (accepted (currency_of (lines ! 1))) (butlast (tl lines))"
    using l by (auto simp: list_all_iff accepted_def)
  show ?thesis
  proof (cases r)
    case (Inl e)
    with all have "\<not> list_all (accepted (currency_of (lines ! 1))) (butlast (tl lines))" by simp
    then show ?thesis
      using assms(1,3,4) open_readlines_exists [OF assms(1)] c l Inl s3
      by (simp add: read_file_try_lines)
  next
    case (Inr u)
    with all have "list_all (accepted (currency_of (lines ! 1))) (butlast (tl lines))" by simp
    then show ?thesis
      using assms(1,3,4) open_readlines_exists [OF assms(1)] c l Inr s3
      by (auto simp: read_file_try_lines split: sum.splits)
  qed
qed


lemma at_entry_filename: "filename (at_entry self) = filename self"
  by (simp add: at_entry_def clear_def)

lemma read_file_at_entry:
  "snd (read_file w self) = snd (read_file_try w (at_entry self))"
  "(fst (read_file w self) = Inr ()) = (fst (read_file_try w (at_entry self)) = Inr ())"
  "fst (read_file w self) = map_sum read_file_except id (fst (read_file_try w (at_entry self)))"
  by (auto simp: read_file_def at_entry_def split: prod.splits sum.splits)

text \<open>
  C1 (as amended). When \<open>read_file\<close> fails, at whatever stage, the session is not
  loaded and no footer was built by the failed load: \<open>is_loaded\<close> is false, and \<open>footer\<close>
  is \<open>None\<close> for a session that was loaded before (it was emptied first) and otherwise
  what it was. The other fields keep what the load had put into them before the step
  that failed; with the session as the \<open>try\<close> statement found it,
  \<^item> when the file cannot be read or \<open>validate_and_set_currency\<close> fails, the session is
    that session;
  \<^item> when the structure is refused or the header is not created, it is that session
    with the currency of the first transaction line;
  \<^item> when a transaction line or the footer fails, it is that session with the currency,
    the header of the file, and the transactions of the lines before the first line that
    is not accepted.
\<close>

theorem read_file_failure:
  assumes "fst (read_file w self) = Inl e"
  shows "\<not> is_loaded (snd (read_file w self)) \<and>
         footer (snd (read_file w self)) = (if is_loaded self then None else footer self) \<and>
         ((\<forall>lines. open_readlines w (file_path w (filename self)) = Inr lines \<longrightarrow>
                   fst (validate_and_set_currency lines (at_entry self)) \<noteq> Inr ()) \<longrightarrow>
            snd (read_file w self) = at_entry self) \<and>
         (\<forall>lines. open_readlines w (file_path w (filename self)) = Inr lines \<and>
                  fst (validate_and_set_currency lines (at_entry self)) = Inr () \<and>
                  (validate_file_structure lines \<noteq> Inr () \<or> isl (header_of_line (hd lines))) \<longrightarrow>
            snd (read_file w self) = (at_entry self)\<lparr>currency := currency_of (lines ! 1)\<rparr>) \<and>
         (\<forall>lines h. open_readlines w (file_path w (filename self)) = Inr lines \<and>
                    fst (validate_and_set_currency lines (at_entry self)) = Inr () \<and>
                    validate_file_structure lines = Inr () \<and> header_of_line (hd lines) = Inr h \<longrightarrow>
            snd (read_file w self) =
              (at_entry self)\<lparr>currency := currency_of (lines ! 1), header := Some h,
                               transactions := transactions (at_entry self)
                                 @ map (projr \<circ> transaction_of_line)
                                     (takeWhile (accepted (currency_of (lines ! 1)))
                                                (butlast (tl lines)))\<rparr>)"
proof (intro conjI allI impI)
  let ?s = "if is_loaded self then clear self else self"
  obtain r s' where t: "read_file_try w ?s = (r, s')" by (cases "read_file_try w ?s") auto
  with assms obtain e' where "r = Inl e'" by (cases r) (auto simp: read_file_def)
  with t have "is_loaded s' = is_loaded ?s \<and> footer s' = footer ?s"
    using read_file_try_failure by blast
  moreover have "snd (read_file w self) = s'" using t by (simp add: read_file_snd)
  ultimately show "\<not> is_loaded (snd (read_file w self))"
    and "footer (snd (read_file w self)) = (if is_loaded self then None else footer self)"
    by (simp_all add: clear_def)
next
  assume a: "\<forall>lines. open_readlines w (file_path w (filename self)) = Inr lines \<longrightarrow>
                   fst (validate_and_set_currency lines (at_entry self)) \<noteq> Inr ()"
  show "snd (read_file w self) = at_entry self"
  proof (cases "open_readlines w (file_path w (filename self))")
    case (Inl x)
    then have "isl (open_readlines w (file_path w (filename (at_entry self))))"
      by (simp add: at_entry_filename)
    then show ?thesis by (simp only: read_file_at_entry(1) read_file_try_unread)
  next
    case (Inr lines)
    with a have "fst (validate_and_set_currency lines (at_entry self)) \<noteq> Inr ()" by blast
    with validate_and_set_currency_cases [of lines "at_entry self"]
    obtain x where x: "validate_and_set_currency lines (at_entry self) = (Inl x, at_entry self)"
      by blast
    have "open_readlines w (file_path w (filename (at_entry self))) = Inr lines"
      using Inr by (simp add: at_entry_filename)
    from read_file_try_currency_refused [OF this x]
    show ?thesis by (simp add: read_file_at_entry(1))
  qed
next
  fix lines
  assume a: "open_readlines w (file_path w (filename self)) = Inr lines \<and>
                  fst (validate_and_set_currency lines (at_entry self)) = Inr () \<and>
                  (validate_file_structure lines \<noteq> Inr () \<or> isl (header_of_line (hd lines)))"
  then have o: "open_readlines w (file_path w (filename (at_entry self))) = Inr lines"
    by (simp add: at_entry_filename)
  from a have c: "fst (validate_and_set_currency lines (at_entry self)) = Inr ()"
    and b: "validate_file_structure lines \<noteq> Inr () \<or> isl (header_of_line (hd lines))" by simp_all
  from read_file_try_before_records [OF o c b]
  show "snd (read_file w self) = (at_entry self)\<lparr>currency := currency_of (lines ! 1)\<rparr>"
    by (simp only: read_file_at_entry(1))
next
  fix lines h
  assume a: "open_readlines w (file_path w (filename self)) = Inr lines \<and>
                    fst (validate_and_set_currency lines (at_entry self)) = Inr () \<and>
                    validate_file_structure lines = Inr () \<and> header_of_line (hd lines) = Inr h"
  then have o: "open_readlines w (file_path w (filename (at_entry self))) = Inr lines"
    by (simp add: at_entry_filename)
  from a have c: "fst (validate_and_set_currency lines (at_entry self)) = Inr ()"
    and v: "validate_file_structure lines = Inr ()" and h: "header_of_line (hd lines) = Inr h"
    by simp_all
  have "fst (read_file_try w (at_entry self)) \<noteq> Inr ()"
    using assms read_file_at_entry(2) [of w self] by simp
  with read_file_try_records [OF o c v h]
  have "snd (read_file_try w (at_entry self)) =
              (at_entry self)\<lparr>currency := currency_of (lines ! 1), header := Some h,
                               transactions := transactions (at_entry self)
                                 @ map (projr \<circ> transaction_of_line)
                                     (takeWhile (accepted (currency_of (lines ! 1)))
                                                (butlast (tl lines)))\<rparr>"
    by blast
  then show "snd (read_file w self) =
              (at_entry self)\<lparr>currency := currency_of (lines ! 1), header := Some h,
                               transactions := transactions (at_entry self)
                                 @ map (projr \<circ> transaction_of_line)
                                     (takeWhile (accepted (currency_of (lines ! 1)))
                                                (butlast (tl lines)))\<rparr>"
    by (simp only: read_file_at_entry(1))
qed

theorem read_file_failure_witness:
  "fst (read_file (world_with ''data.txt'' [example_header_line, example_transaction_line, example_bad_footer_line]) (FileOperations ''data.txt'')) =
     Inl (DataFactorError (''Error creating footer: Expected an int, got '' @ class_repr TStr
                             @ '': invalid literal for int() with base 10'')) \<and>
   \<not> is_loaded (snd (read_file (world_with ''data.txt'' [example_header_line, example_transaction_line, example_bad_footer_line]) (FileOperations ''data.txt''))) \<and>
   footer (snd (read_file (world_with ''data.txt'' [example_header_line, example_transaction_line, example_bad_footer_line]) (FileOperations ''data.txt''))) = None \<and>
   open_readlines (world_with ''data.txt'' [example_header_line, example_transaction_line, example_bad_footer_line]) (file_path (world_with ''data.txt'' [example_header_line, example_transaction_line, example_bad_footer_line]) (filename (FileOperations ''data.txt''))) = Inr (with_line_feeds [example_header_line, example_transaction_line, example_bad_footer_line]) \<and>
   fst (validate_and_set_currency (with_line_feeds [example_header_line, example_transaction_line, example_bad_footer_line]) (at_entry (FileOperations ''data.txt''))) = Inr () \<and>
   validate_file_structure (with_line_feeds [example_header_line, example_transaction_line, example_bad_footer_line]) = Inr () \<and>
   header_of_line (hd (with_line_feeds [example_header_line, example_transaction_line, example_bad_footer_line])) = Inr \<lparr>name = py_rjust 28 CHR '' '' ''John'', surname = py_rjust 30 CHR '' '' ''Smith'',
             patronymic = py_rjust 30 CHR '' '' ''Paul'',
             address = py_rjust 30 CHR '' '' ''1 Main Street''\<rparr> \<and>
   snd (read_file (world_with ''data.txt'' [example_header_line, example_transaction_line, example_bad_footer_line]) (FileOperations ''data.txt'')) = (example_session\<lparr>filename := ''data.txt'', footer := None, is_loaded := False\<rparr>) \<and>
   fst (read_file (world_with ''data.txt'' [example_header_line, example_transaction_line, example_euro_line, example_footer_line]) (FileOperations ''data.txt'')) =
     Inl (FileFormatError ''Error validating file: Currency mismatch found: EUR does not match USD'') \<and>
   open_readlines (world_with ''data.txt'' [example_header_line, example_transaction_line, example_euro_line, example_footer_line]) (file_path (world_with ''data.txt'' [example_header_line, example_transaction_line, example_euro_line, example_footer_line]) (filename (FileOperations ''data.txt''))) = Inr (with_line_feeds [example_header_line, example_transaction_line, example_euro_line, example_footer_line]) \<and>
   snd (read_file (world_with ''data.txt'' [example_header_line, example_transaction_line, example_euro_line, example_footer_line]) (FileOperations ''data.txt'')) = (example_session\<lparr>filename := ''data.txt'', footer := None, is_loaded := False\<rparr>)"
proof -
  let ?h = "\<lparr>name = py_rjust 28 CHR '' '' ''John'', surname = py_rjust 30 CHR '' '' ''Smith'',
             patronymic = py_rjust 30 CHR '' '' ''Paul'',
             address = py_rjust 30 CHR '' '' ''1 Main Street''\<rparr>"
  have a: "fst (read_file (world_with ''data.txt'' [example_header_line, example_transaction_line, example_bad_footer_line]) (FileOperations ''data.txt'')) =
     Inl (DataFactorError (''Error creating footer: Expected an int, got '' @ class_repr TStr
                             @ '': invalid literal for int() with base 10''))"
    by code_simp
  have o: "open_readlines (world_with ''data.txt'' [example_header_line, example_transaction_line, example_bad_footer_line]) (file_path (world_with ''data.txt'' [example_header_line, example_transaction_line, example_bad_footer_line]) (filename (FileOperations ''data.txt''))) = Inr (with_line_feeds [example_header_line, example_transaction_line, example_bad_footer_line])"
    by code_simp
  have c: "fst (validate_and_set_currency (with_line_feeds [example_header_line, example_transaction_line, example_bad_footer_line]) (at_entry (FileOperations ''data.txt''))) = Inr ()"
    by code_simp
  have v: "validate_file_structure (with_line_feeds [example_header_line, example_transaction_line, example_bad_footer_line]) = Inr ()" by code_simp
  have h: "header_of_line (hd (with_line_feeds [example_header_line, example_transaction_line, example_bad_footer_line])) = Inr ?h" by code_simp
  have e: "((at_entry (FileOperations ''data.txt''))\<lparr>currency := currency_of (with_line_feeds [example_header_line, example_transaction_line, example_bad_footer_line] ! 1), header := Some ?h,
       transactions := transactions (at_entry (FileOperations ''data.txt''))
         @ map (projr \<circ> transaction_of_line)
             (takeWhile (accepted (currency_of (with_line_feeds [example_header_line, example_transaction_line, example_bad_footer_line] ! 1)))
                        (butlast (tl (with_line_feeds [example_header_line, example_transaction_line, example_bad_footer_line]))))\<rparr>) = (example_session\<lparr>filename := ''data.txt'', footer := None, is_loaded := False\<rparr>)" by code_simp
  have a': "fst (read_file (world_with ''data.txt'' [example_header_line, example_transaction_line, example_euro_line, example_footer_line]) (FileOperations ''data.txt'')) =
     Inl (FileFormatError ''Error validating file: Currency mismatch found: EUR does not match USD'')"
    by code_simp
  have o': "open_readlines (world_with ''data.txt'' [example_header_line, example_transaction_line, example_euro_line, example_footer_line]) (file_path (world_with ''data.txt'' [example_header_line, example_transaction_line, example_euro_line, example_footer_line]) (filename (FileOperations ''data.txt''))) = Inr (with_line_feeds [example_header_line, example_transaction_line, example_euro_line, example_footer_line])"
    by code_simp
  have c': "fst (validate_and_set_currency (with_line_feeds [example_header_line, example_transaction_line, example_euro_line, example_footer_line]) (at_entry (FileOperations ''data.txt''))) = Inr ()"
    by code_simp
  have v': "validate_file_structure (with_line_feeds [example_header_line, example_transaction_line, example_euro_line, example_footer_line]) = Inr ()" by code_simp
  have h': "header_of_line (hd (with_line_feeds [example_header_line, example_transaction_line, example_euro_line, example_footer_line])) = Inr ?h" by code_simp
  have e': "((at_entry (FileOperations ''data.txt''))\<lparr>currency := currency_of (with_line_feeds [example_header_line, example_transaction_line, example_euro_line, example_footer_line] ! 1), header := Some ?h,
       transactions := transactions (at_entry (FileOperations ''data.txt''))
         @ map (projr \<circ> transaction_of_line)
             (takeWhile (accepted (currency_of (with_line_feeds [example_header_line, example_transaction_line, example_euro_line, example_footer_line] ! 1)))
                        (butlast (tl (with_line_feeds [example_header_line, example_transaction_line, example_euro_line, example_footer_line]))))\<rparr>) = (example_session\<lparr>filename := ''data.txt'', footer := None, is_loaded := False\<rparr>)" by code_simp
  note A = read_file_failure [OF a]
  note B = read_file_failure [OF a']
  from A have 1: "\<not> is_loaded (snd (read_file (world_with ''data.txt'' [example_header_line, example_transaction_line, example_bad_footer_line]) (FileOperations ''data.txt'')))" by (rule conjunct1)
  from A [THEN conjunct2, THEN conjunct1]
  have 2: "footer (snd (read_file (world_with ''data.txt'' [example_header_line, example_transaction_line, example_bad_footer_line]) (FileOperations ''data.txt''))) = None" by (simp add: FileOperations_def)
  from A [THEN conjunct2, THEN conjunct2, THEN conjunct2, THEN conjunct2] o c v h
  have "snd (read_file (world_with ''data.txt'' [example_header_line, example_transaction_line, example_bad_footer_line]) (FileOperations ''data.txt'')) = ((at_entry (FileOperations ''data.txt''))\<lparr>currency := currency_of (with_line_feeds [example_header_line, example_transaction_line, example_bad_footer_line] ! 1), header := Some ?h,
       transactions := transactions (at_entry (FileOperations ''data.txt''))
         @ map (projr \<circ> transaction_of_line)
             (takeWhile (accepted (currency_of (with_line_feeds [example_header_line, example_transaction_line, example_bad_footer_line] ! 1)))
                        (butlast (tl (with_line_feeds [example_header_line, example_transaction_line, example_bad_footer_line]))))\<rparr>)" by blast
  then have 3: "snd (read_file (world_with ''data.txt'' [example_header_line, example_transaction_line, example_bad_footer_line]) (FileOperations ''data.txt'')) = (example_session\<lparr>filename := ''data.txt'', footer := None, is_loaded := False\<rparr>)" by (simp only: e)
  from B [THEN conjunct2, THEN conjunct2, THEN conjunct2, THEN conjunct2] o' c' v' h'
  have "snd (read_file (world_with ''data.txt'' [example_header_line, example_transaction_line, example_euro_line, example_footer_line]) (FileOperations ''data.txt'')) = ((at_entry (FileOperations ''data.txt''))\<lparr>currency := currency_of (with_line_feeds [example_header_line, example_transaction_line, example_euro_line, example_footer_line] ! 1), header := Some ?h,
       transactions := transactions (at_entry (FileOperations ''data.txt''))
         @ map (projr \<circ> transaction_of_line)
             (takeWhile (accepted (currency_of (with_line_feeds [example_header_line, example_transaction_line, example_euro_line, example_footer_line] ! 1)))
                        (butlast (tl (with_line_feeds [example_header_line, example_transaction_line, example_euro_line, example_footer_line]))))\<rparr>)" by blast
  then have 4: "snd (read_file (world_with ''data.txt'' [example_header_line, example_transaction_line, example_euro_line, example_footer_line]) (FileOperations ''data.txt'')) = (example_session\<lparr>filename := ''data.txt'', footer := None, is_loaded := False\<rparr>)" by (simp only: e')
  from a 1 2 o c v h 3 a' o' 4 show ?thesis by (intro conjI)
qed

text \<open>
  C1 as the specification states it fails: a file whose header and transaction are valid
  and whose footer does not count in digits is refused when the footer is created, and
  the new session, which held no record, is left with the header and the transaction of
  the file.
\<close>

theorem read_file_keeps_partial_records:
  "header (FileOperations ''data.txt'') = None \<and> transactions (FileOperations ''data.txt'') = [] \<and>
   isl (fst (read_file (world_with ''data.txt'' [example_header_line, example_transaction_line, ''03abcdef000000100.00'' @ replicate 100 CHR '' '']) (FileOperations ''data.txt''))) \<and>
   header (snd (read_file (world_with ''data.txt'' [example_header_line, example_transaction_line, ''03abcdef000000100.00'' @ replicate 100 CHR '' '']) (FileOperations ''data.txt''))) = header example_session \<and>
   header example_session \<noteq> None \<and>
   transactions (snd (read_file (world_with ''data.txt'' [example_header_line, example_transaction_line, ''03abcdef000000100.00'' @ replicate 100 CHR '' '']) (FileOperations ''data.txt''))) = transactions example_session \<and>
   transactions example_session \<noteq> []"
  by code_simp

lemma startswith_02_parses: "startswith l ''02'' \<Longrightarrow> \<not> isl (parse_transaction_data l)"
proof -
  assume "startswith l ''02''"
  then have "slice 0 2 l = ''02''" by (simp add: startswith_def slice_def numeral_2_eq_2)
  moreover have "py_strip ''02'' = ''02''" by code_simp
  ultimately show ?thesis by (simp add: parse_transaction_data_def)
qed

lemma dropWhile_in_set: "dropWhile P xs = y # ys \<Longrightarrow> y \<in> set xs"
  by (metis list.set_intros(1) set_dropWhileD)

text \<open>
  C8. For a file that can be read:
  \<^item> when \<open>read_file\<close> succeeds, the currency of the session is the currency of the
    first transaction line, it is one of USD, EUR, GBP and PLN, and every transaction
    line has that currency; so a first transaction line with another currency, and any
    transaction line whose currency differs from that of the first, make \<open>read_file\<close>
    fail with an error;
  \<^item> \<open>validate_and_set_currency\<close> succeeds exactly when there is a second line, it is
    tagged as a transaction and its currency is allowed, and what it does then is to set
    the currency of the session to that currency;
  \<^item> a first transaction line with an allowed currency fixes the currency of the
    session, whether the rest of the load succeeds or not;
  \<^item> a first transaction line with another currency makes \<open>read_file\<close> raise the
    \<open>FileFormatError\<close> of an invalid currency;
  \<^item> in a file of valid structure with a header that is created, the first transaction
    line that is not accepted, when its currency differs, makes \<open>read_file\<close> raise the
    \<open>FileFormatError\<close> of a currency mismatch that names both currencies.
\<close>

theorem read_file_currency:
  assumes "open_readlines w (file_path w (filename self)) = Inr lines"
  shows "(fst (read_file w self) = Inr () \<longrightarrow>
            currency (snd (read_file w self)) = currency_of (lines ! 1) \<and>
            currency_of (lines ! 1) \<in> ALLOWED_CURRENCIES \<and>
            (\<forall>l \<in> set (butlast (tl lines)). currency_of l = currency_of (lines ! 1))) \<and>
         (2 \<le> length lines \<and> currency_of (lines ! 1) \<notin> ALLOWED_CURRENCIES \<longrightarrow>
            isl (fst (read_file w self))) \<and>
         ((\<exists>l \<in> set (butlast (tl lines)). currency_of l \<noteq> currency_of (lines ! 1)) \<longrightarrow>
            isl (fst (read_file w self))) \<and>
         (\<forall>s1 s2. (validate_and_set_currency lines s1 = (Inr (), s2)) =
                  (2 \<le> length lines \<and> \<not> isl (parse_transaction_data (lines ! 1)) \<and>
                   currency_of (lines ! 1) \<in> ALLOWED_CURRENCIES \<and>
                   s2 = s1\<lparr>currency := currency_of (lines ! 1)\<rparr>)) \<and>
         (2 \<le> length lines \<and> \<not> isl (parse_transaction_data (lines ! 1)) \<and>
            currency_of (lines ! 1) \<in> ALLOWED_CURRENCIES \<longrightarrow>
            currency (snd (read_file w self)) = currency_of (lines ! 1)) \<and>
         (2 \<le> length lines \<and> \<not> isl (parse_transaction_data (lines ! 1)) \<and>
            currency_of (lines ! 1) \<notin> ALLOWED_CURRENCIES \<longrightarrow>
            fst (read_file w self) =
              Inl (FileFormatError
                    (''Error validating file: Invalid currency in the first transaction: ''
                       @ currency_of (lines ! 1)))) \<and>
         (\<forall>l rest. validate_file_structure lines = Inr () \<and>
                   currency_of (lines ! 1) \<in> ALLOWED_CURRENCIES \<and>
                   \<not> isl (header_of_line (hd lines)) \<and>
                   dropWhile (accepted (currency_of (lines ! 1))) (butlast (tl lines)) = l # rest \<and>
                   currency_of l \<noteq> currency_of (lines ! 1) \<longrightarrow>
            fst (read_file w self) =
              Inl (FileFormatError
                    (''Error validating file: Currency mismatch found: '' @ currency_of l
                       @ '' does not match '' @ currency_of (lines ! 1))))"
proof -
  let ?s = "if is_loaded self then clear self else self"
  let ?cur = "currency_of (lines ! 1)"
  have fn: "filename ?s = filename self" by (simp add: clear_def)
  have o: "open_readlines w (file_path w (filename (at_entry self))) = Inr lines"
    using assms by (simp add: at_entry_filename)
  have ok: "currency (snd (read_file w self)) = ?cur \<and> ?cur \<in> ALLOWED_CURRENCIES \<and>
            (\<forall>l \<in> set (butlast (tl lines)). currency_of l = ?cur)"
    if "fst (read_file w self) = Inr ()"
  proof -
    from that have "fst (read_file_try w ?s) = Inr ()" by (simp only: read_file_fst)
    then have "read_file_try w ?s = (Inr (), snd (read_file w self))"
      by (simp add: read_file_snd prod_eq_iff)
    from read_file_try_success [OF this] fn assms show ?thesis by auto
  qed
  then have old: "(fst (read_file w self) = Inr () \<longrightarrow>
            currency (snd (read_file w self)) = ?cur \<and> ?cur \<in> ALLOWED_CURRENCIES \<and>
            (\<forall>l \<in> set (butlast (tl lines)). currency_of l = ?cur)) \<and>
         (2 \<le> length lines \<and> ?cur \<notin> ALLOWED_CURRENCIES \<longrightarrow> isl (fst (read_file w self))) \<and>
         ((\<exists>l \<in> set (butlast (tl lines)). currency_of l \<noteq> ?cur) \<longrightarrow> isl (fst (read_file w self)))"
    unfolding read_file_isl by blast
  have setter: "\<forall>s1 s2. (validate_and_set_currency lines s1 = (Inr (), s2)) =
                  (2 \<le> length lines \<and> \<not> isl (parse_transaction_data (lines ! 1)) \<and>
                   ?cur \<in> ALLOWED_CURRENCIES \<and> s2 = s1\<lparr>currency := ?cur\<rparr>)"
    by (simp only: validate_and_set_currency_ok simp_thms)
  have vok: "validate_and_set_currency lines (at_entry self) = (Inr (), (at_entry self)\<lparr>currency := ?cur\<rparr>)"
    if "2 \<le> length lines" "\<not> isl (parse_transaction_data (lines ! 1))" "?cur \<in> ALLOWED_CURRENCIES"
    using that by (simp only: validate_and_set_currency_ok simp_thms)
  have sets: "currency (snd (read_file w self)) = ?cur"
    if "2 \<le> length lines \<and> \<not> isl (parse_transaction_data (lines ! 1)) \<and> ?cur \<in> ALLOWED_CURRENCIES"
  proof -
    from that vok have c: "fst (validate_and_set_currency lines (at_entry self)) = Inr ()" by simp
    show ?thesis
    proof (cases "validate_file_structure lines \<noteq> Inr () \<or> isl (header_of_line (hd lines))")
      case True
      from read_file_try_before_records [OF o c True] show ?thesis
        by (simp add: read_file_at_entry(1))
    next
      case False
      then obtain h where v: "validate_file_structure lines = Inr ()" and h: "header_of_line (hd lines) = Inr h"
        by (cases "header_of_line (hd lines)") auto
      show ?thesis
      proof (cases "fst (read_file w self) = Inr ()")
        case True
        with ok show ?thesis by blast
      next
        case False
        then have "fst (read_file_try w (at_entry self)) \<noteq> Inr ()"
          using read_file_at_entry(2) [of w self] by simp
        with read_file_try_records [OF o c v h] show ?thesis
          by (simp add: read_file_at_entry(1))
      qed
    qed
  qed
  have invalid: "fst (read_file w self) =
              Inl (FileFormatError
                    (''Error validating file: Invalid currency in the first transaction: '' @ ?cur))"
    if "2 \<le> length lines \<and> \<not> isl (parse_transaction_data (lines ! 1)) \<and> ?cur \<notin> ALLOWED_CURRENCIES"
  proof -
    from that have "validate_and_set_currency lines (at_entry self) =
        (Inl (DataValidationError (''Invalid currency in the first transaction: '' @ ?cur)), at_entry self)"
      using validate_and_set_currency_invalid by blast
    from read_file_try_currency_refused [OF o this] show ?thesis
      by (simp add: read_file_at_entry(3) read_file_except_def)
  qed
  have mismatch: "fst (read_file w self) =
              Inl (FileFormatError
                    (''Error validating file: Currency mismatch found: '' @ currency_of l
                       @ '' does not match '' @ ?cur))"
    if m: "validate_file_structure lines = Inr () \<and> ?cur \<in> ALLOWED_CURRENCIES \<and>
           \<not> isl (header_of_line (hd lines)) \<and>
           dropWhile (accepted ?cur) (butlast (tl lines)) = l # rest \<and> currency_of l \<noteq> ?cur"
    for l rest
  proof -
    from m have v: "validate_file_structure lines = Inr ()" by simp
    from m obtain h where h: "header_of_line (hd lines) = Inr h"
      by (cases "header_of_line (hd lines)") auto
    from m have d: "dropWhile (accepted ?cur) (butlast (tl lines)) = l # rest" by simp
    have len: "3 \<le> length lines" using v by (rule validate_file_structure_length)
    have tags: "\<forall>x \<in> set (butlast (tl lines)). startswith x ''02''"
      using v by (auto simp: validate_file_structure_def list_ex_iff Let_def split: if_splits)
    have "lines ! 1 \<in> set (butlast (tl lines))" using len by (rule interior_second)
    with tags have p1: "\<not> isl (parse_transaction_data (lines ! 1))"
      using startswith_02_parses by blast
    have "l \<in> set (butlast (tl lines))" using d by (rule dropWhile_in_set)
    with tags have pl: "\<not> isl (parse_transaction_data l)" using startswith_02_parses by blast
    from len p1 m vok have c: "fst (validate_and_set_currency lines (at_entry self)) = Inr ()" by simp
    let ?s2 = "(at_entry self)\<lparr>currency := ?cur, header := Some h\<rparr>"
    have nall: "\<not> list_all (accepted ?cur) (butlast (tl lines))"
    proof
      assume "list_all (accepted ?cur) (butlast (tl lines))"
      then have "dropWhile (accepted ?cur) (butlast (tl lines)) = []" by (simp add: list_all_iff)
      with d show False by simp
    qed
    have cur2: "currency ?s2 = ?cur" by simp
    from d have d2: "dropWhile (accepted (currency ?s2)) (butlast (tl lines)) = l # rest"
      by (simp only: cur2)
    from m have n2: "currency_of l \<noteq> currency ?s2" by (simp only: cur2) simp
    have lt: "fst (load_transactions (butlast (tl lines)) ?s2) =
        Inl (DataValidationError
              (''Currency mismatch found: '' @ currency_of l @ '' does not match '' @ currency ?s2))"
      by (rule load_transactions_mismatch [OF d2 pl n2])
    have ne: "fst (read_file_try w (at_entry self)) \<noteq> Inr ()"
    proof
      assume "fst (read_file_try w (at_entry self)) = Inr ()"
      then have "fst (read_file w self) = Inr ()" using read_file_at_entry(2) [of w self] by simp
      with ok have "\<forall>x \<in> set (butlast (tl lines)). currency_of x = ?cur" by blast
      with \<open>l \<in> set (butlast (tl lines))\<close> m show False by blast
    qed
    with read_file_try_records [OF o c v h] nall
    have "fst (read_file_try w (at_entry self)) = fst (load_transactions (butlast (tl lines)) ?s2)"
      by simp
    with lt show ?thesis
      by (simp add: read_file_at_entry(3) read_file_except_def)
  qed
  from old setter sets invalid mismatch show ?thesis by blast
qed

theorem read_file_currency_witness:
  "open_readlines (world_with ''data.txt'' [example_header_line, example_euro_line, example_footer_line]) (file_path (world_with ''data.txt'' [example_header_line, example_euro_line, example_footer_line]) (filename (FileOperations ''data.txt''))) = Inr (with_line_feeds [example_header_line, example_euro_line, example_footer_line]) \<and>
   currency_of (with_line_feeds [example_header_line, example_euro_line, example_footer_line] ! 1) = ''EUR'' \<and>
   fst (read_file (world_with ''data.txt'' [example_header_line, example_euro_line, example_footer_line]) (FileOperations ''data.txt'')) = Inr () \<and>
   currency (snd (read_file (world_with ''data.txt'' [example_header_line, example_euro_line, example_footer_line]) (FileOperations ''data.txt''))) = ''EUR'' \<and>
   open_readlines (world_with ''data.txt'' [example_header_line, example_unknown_currency_line, example_footer_line]) (file_path (world_with ''data.txt'' [example_header_line, example_unknown_currency_line, example_footer_line]) (filename (FileOperations ''data.txt''))) = Inr (with_line_feeds [example_header_line, example_unknown_currency_line, example_footer_line]) \<and>
   currency_of (with_line_feeds [example_header_line, example_unknown_currency_line, example_footer_line] ! 1) = ''XYZ'' \<and>
   fst (read_file (world_with ''data.txt'' [example_header_line, example_unknown_currency_line, example_footer_line]) (FileOperations ''data.txt'')) =
     Inl (FileFormatError ''Error validating file: Invalid currency in the first transaction: XYZ'') \<and>
   open_readlines (world_with ''data.txt'' [example_header_line, example_transaction_line, example_euro_line, example_footer_line]) (file_path (world_with ''data.txt'' [example_header_line, example_transaction_line, example_euro_line, example_footer_line]) (filename (FileOperations ''data.txt''))) = Inr (with_line_feeds [example_header_line, example_transaction_line, example_euro_line, example_footer_line]) \<and>
   dropWhile (accepted (currency_of (with_line_feeds [example_header_line, example_transaction_line, example_euro_line, example_footer_line] ! 1))) (butlast (tl (with_line_feeds [example_header_line, example_transaction_line, example_euro_line, example_footer_line]))) =
     [example_euro_line @ [CHR 0x0A]] \<and>
   currency_of (example_euro_line @ [CHR 0x0A]) = ''EUR'' \<and>
   currency_of (with_line_feeds [example_header_line, example_transaction_line, example_euro_line, example_footer_line] ! 1) = ''USD'' \<and>
   fst (read_file (world_with ''data.txt'' [example_header_line, example_transaction_line, example_euro_line, example_footer_line]) (FileOperations ''data.txt'')) =
     Inl (FileFormatError ''Error validating file: Currency mismatch found: EUR does not match USD'') \<and>
   currency (snd (read_file (world_with ''data.txt'' [example_header_line, example_transaction_line, example_euro_line, example_footer_line]) (FileOperations ''data.txt''))) = ''USD''"
proof -
  have e1: "open_readlines (world_with ''data.txt'' [example_header_line, example_euro_line, example_footer_line]) (file_path (world_with ''data.txt'' [example_header_line, example_euro_line, example_footer_line]) (filename (FileOperations ''data.txt''))) = Inr (with_line_feeds [example_header_line, example_euro_line, example_footer_line])"
    by code_simp
  have e2: "currency_of (with_line_feeds [example_header_line, example_euro_line, example_footer_line] ! 1) = ''EUR''" by code_simp
  have e3: "fst (read_file (world_with ''data.txt'' [example_header_line, example_euro_line, example_footer_line]) (FileOperations ''data.txt'')) = Inr ()" by code_simp
  have x1: "open_readlines (world_with ''data.txt'' [example_header_line, example_unknown_currency_line, example_footer_line]) (file_path (world_with ''data.txt'' [example_header_line, example_unknown_currency_line, example_footer_line]) (filename (FileOperations ''data.txt''))) = Inr (with_line_feeds [example_header_line, example_unknown_currency_line, example_footer_line])"
    by code_simp
  have x2: "currency_of (with_line_feeds [example_header_line, example_unknown_currency_line, example_footer_line] ! 1) = ''XYZ''" by code_simp
  have x3: "2 \<le> length (with_line_feeds [example_header_line, example_unknown_currency_line, example_footer_line])" by code_simp
  have x4: "\<not> isl (parse_transaction_data (with_line_feeds [example_header_line, example_unknown_currency_line, example_footer_line] ! 1))" by code_simp
  have x5: "currency_of (with_line_feeds [example_header_line, example_unknown_currency_line, example_footer_line] ! 1) \<notin> ALLOWED_CURRENCIES" by code_simp
  have m1: "open_readlines (world_with ''data.txt'' [example_header_line, example_transaction_line, example_euro_line, example_footer_line]) (file_path (world_with ''data.txt'' [example_header_line, example_transaction_line, example_euro_line, example_footer_line]) (filename (FileOperations ''data.txt''))) = Inr (with_line_feeds [example_header_line, example_transaction_line, example_euro_line, example_footer_line])"
    by code_simp
  have m2: "dropWhile (accepted (currency_of (with_line_feeds [example_header_line, example_transaction_line, example_euro_line, example_footer_line] ! 1))) (butlast (tl (with_line_feeds [example_header_line, example_transaction_line, example_euro_line, example_footer_line]))) =
     [example_euro_line @ [CHR 0x0A]]"
    by code_simp
  have m3: "currency_of (example_euro_line @ [CHR 0x0A]) = ''EUR''" by code_simp
  have m4: "currency_of (with_line_feeds [example_header_line, example_transaction_line, example_euro_line, example_footer_line] ! 1) = ''USD''" by code_simp
  have m5: "validate_file_structure (with_line_feeds [example_header_line, example_transaction_line, example_euro_line, example_footer_line]) = Inr ()" by code_simp
  have m6: "currency_of (with_line_feeds [example_header_line, example_transaction_line, example_euro_line, example_footer_line] ! 1) \<in> ALLOWED_CURRENCIES" by code_simp
  have m7: "\<not> isl (header_of_line (hd (with_line_feeds [example_header_line, example_transaction_line, example_euro_line, example_footer_line])))" by code_simp
  have m8: "currency_of (example_euro_line @ [CHR 0x0A]) \<noteq> currency_of (with_line_feeds [example_header_line, example_transaction_line, example_euro_line, example_footer_line] ! 1)"
    by (simp only: m3 m4) simp
  have m9: "2 \<le> length (with_line_feeds [example_header_line, example_transaction_line, example_euro_line, example_footer_line])" by code_simp
  have m10: "\<not> isl (parse_transaction_data (with_line_feeds [example_header_line, example_transaction_line, example_euro_line, example_footer_line] ! 1))" by code_simp
  note E = read_file_currency [OF e1]
  note X = read_file_currency [OF x1]
  note M = read_file_currency [OF m1]
  from E [THEN conjunct1] e3
  have "currency (snd (read_file (world_with ''data.txt'' [example_header_line, example_euro_line, example_footer_line]) (FileOperations ''data.txt''))) = currency_of (with_line_feeds [example_header_line, example_euro_line, example_footer_line] ! 1)"
    by (simp only: simp_thms)
  then have e4: "currency (snd (read_file (world_with ''data.txt'' [example_header_line, example_euro_line, example_footer_line]) (FileOperations ''data.txt''))) = ''EUR''" by (simp only: e2)
  from X [THEN conjunct2, THEN conjunct2, THEN conjunct2, THEN conjunct2, THEN conjunct2, THEN conjunct1]
       x3 x4 x5
  have "fst (read_file (world_with ''data.txt'' [example_header_line, example_unknown_currency_line, example_footer_line]) (FileOperations ''data.txt'')) =
     Inl (FileFormatError (''Error validating file: Invalid currency in the first transaction: ''
                             @ currency_of (with_line_feeds [example_header_line, example_unknown_currency_line, example_footer_line] ! 1)))"
    by (simp only: simp_thms)
  then have x6: "fst (read_file (world_with ''data.txt'' [example_header_line, example_unknown_currency_line, example_footer_line]) (FileOperations ''data.txt'')) =
     Inl (FileFormatError ''Error validating file: Invalid currency in the first transaction: XYZ'')"
    by (simp only: x2) simp
  from M [THEN conjunct2, THEN conjunct2, THEN conjunct2, THEN conjunct2, THEN conjunct2, THEN conjunct2]
       m5 m6 m7 m2 m8
  have "fst (read_file (world_with ''data.txt'' [example_header_line, example_transaction_line, example_euro_line, example_footer_line]) (FileOperations ''data.txt'')) =
     Inl (FileFormatError (''Error validating file: Currency mismatch found: ''
                             @ currency_of (example_euro_line @ [CHR 0x0A])
                             @ '' does not match '' @ currency_of (with_line_feeds [example_header_line, example_transaction_line, example_euro_line, example_footer_line] ! 1)))"
    by blast
  then have m11: "fst (read_file (world_with ''data.txt'' [example_header_line, example_transaction_line, example_euro_line, example_footer_line]) (FileOperations ''data.txt'')) =
     Inl (FileFormatError ''Error validating file: Currency mismatch found: EUR does not match USD'')"
    by (simp only: m3 m4) simp
  from M [THEN conjunct2, THEN conjunct2, THEN conjunct2, THEN conjunct2, THEN conjunct1] m9 m10 m6
  have "currency (snd (read_file (world_with ''data.txt'' [example_header_line, example_transaction_line, example_euro_line, example_footer_line]) (FileOperations ''data.txt''))) = currency_of (with_line_feeds [example_header_line, example_transaction_line, example_euro_line, example_footer_line] ! 1)"
    by (simp only: simp_thms)
  then have m12: "currency (snd (read_file (world_with ''data.txt'' [example_header_line, example_transaction_line, example_euro_line, example_footer_line]) (FileOperations ''data.txt''))) = ''USD''" by (simp only: m4)
  from e1 e2 e3 e4 x1 x2 x6 m1 m2 m3 m4 m11 m12 show ?thesis by (intro conjI)
qed

section \<open>Loading and saving again\<close>

lemma rstrip_while_prefix: "rstrip_while P s = take (length (rstrip_while P s)) s"
proof -
  have "rev (rev s) = rev (takeWhile P (rev s) @ dropWhile P (rev s))"
    by (simp only: takeWhile_dropWhile_id)
  then have "s = rstrip_while P s @ rev (takeWhile P (rev s))"
    by (simp only: rev_rev_ident rev_append rstrip_while_def)
  then have "take (length (rstrip_while P s)) s =
             take (length (rstrip_while P s)) (rstrip_while P s @ rev (takeWhile P (rev s)))"
    by (rule arg_cong)
  then show ?thesis by simp
qed

lemma startswith_two: "startswith l [a, b] \<Longrightarrow> take 2 l = [a, b]"
  by (simp add: startswith_def numeral_2_eq_2)

lemma rstrip_crlf_take: "length (rstrip_crlf l) = n \<Longrightarrow> rstrip_crlf l = take n l"
  unfolding rstrip_crlf_def using rstrip_while_prefix [of "\<lambda>c. c = CHR 0x0D \<or> c = CHR 0x0A" l] by simp

lemma take_slice: "a \<le> b \<Longrightarrow> take a l @ slice a b l = take b l"
proof -
  assume "a \<le> b"
  then have "take b l = take (a + (b - a)) l" by simp
  also have "\<dots> = take a l @ take (b - a) (drop a l)" by (rule take_add)
  finally show ?thesis by (simp add: slice_def)
qed

lemma validate_member_str:
  "validate_member (PyStr x) t w = Inr r \<Longrightarrow> r = py_rjust w CHR '' '' x"
  by (auto simp: validate_member_def validate_fixed_width_def Let_def split: sum.splits if_splits)

lemma factory_error_Inr: "factory_error what r = Inr x \<Longrightarrow> r = Inr x"
  by (auto simp: factory_error_def split: sum.splits error.splits)

lemma header_of_line_fields:
  assumes "header_of_line l = Inr h"
  shows "name h = py_rjust 28 CHR '' '' (py_strip (slice 2 30 l)) \<and>
         surname h = py_rjust 30 CHR '' '' (py_strip (slice 30 60 l)) \<and>
         patronymic h = py_rjust 30 CHR '' '' (py_strip (slice 60 90 l)) \<and>
         address h = py_rjust 30 CHR '' '' (py_strip (slice 90 120 l))"
  using assms
  by (auto simp: header_of_line_def parse_header_data_def create_header_def Header_def
           split: if_splits sum.splits dest!: factory_error_Inr validate_member_str)

lemma transaction_of_line_fields:
  assumes "transaction_of_line l = Inr t"
  shows "counter t = py_rjust 6 CHR '' '' (py_strip (slice 2 8 l)) \<and>
         amount t = py_rjust 12 CHR '' '' (py_strip (slice 8 20 l)) \<and>
         transaction.currency t = py_rjust 3 CHR '' '' (py_strip (slice 20 23 l)) \<and>
         transaction.reserved t = py_rjust 97 CHR '' '' (py_strip (slice 23 120 l))"
  using assms
  by (auto simp: transaction_of_line_def parse_transaction_data_def create_transaction_def Transaction_def
           split: if_splits sum.splits dest!: factory_error_Inr validate_member_str)

lemma footer_of_line_fields:
  assumes "footer_of_line l = Inr f"
  shows "total_counter f = py_rjust 6 CHR '' '' (py_strip (slice 2 8 l)) \<and>
         control_sum f = py_rjust 12 CHR '' '' (py_strip (slice 8 20 l)) \<and>
         footer.reserved f = py_rjust 100 CHR '' '' (py_strip (slice 20 120 l))"
  using assms
  by (auto simp: footer_of_line_def parse_footer_data_def create_footer_def Footer_def
           split: if_splits sum.splits dest!: factory_error_Inr validate_member_str)

lemma header_line_again:
  assumes "header_of_line l = Inr h" and "length (rstrip_crlf l) = 120" and "startswith l ''01''"
    and "justified 2 30 l" "justified 30 60 l" "justified 60 90 l" "justified 90 120 l"
  shows "header_to_fixed_width_string h = rstrip_crlf l"
proof -
  note f = header_of_line_fields [OF assms(1)]
  have "header_to_fixed_width_string h =
          take 2 l @ slice 2 30 l @ slice 30 60 l @ slice 60 90 l @ slice 90 120 l"
    using f assms(4-7) startswith_two [OF assms(3)] by (simp add: header_to_fixed_width_string_def justified_def)
  also have "\<dots> = take 120 l"
    using take_slice [of 2 30 l] take_slice [of 30 60 l] take_slice [of 60 90 l] take_slice [of 90 120 l]
    by (simp flip: append_assoc)
  also have "\<dots> = rstrip_crlf l" using rstrip_crlf_take [OF assms(2)] by simp
  finally show ?thesis .
qed

lemma transaction_line_again:
  assumes "transaction_of_line l = Inr t" and "length (rstrip_crlf l) = 120" and "startswith l ''02''"
    and "justified 2 8 l" "justified 8 20 l" "justified 20 23 l" "justified 23 120 l"
  shows "transaction_to_fixed_width_string t = rstrip_crlf l"
proof -
  note f = transaction_of_line_fields [OF assms(1)]
  have "transaction_to_fixed_width_string t =
          take 2 l @ slice 2 8 l @ slice 8 20 l @ slice 20 23 l @ slice 23 120 l"
    using f assms(4-7) startswith_two [OF assms(3)] by (simp add: transaction_to_fixed_width_string_def justified_def)
  also have "\<dots> = take 120 l"
    using take_slice [of 2 8 l] take_slice [of 8 20 l] take_slice [of 20 23 l] take_slice [of 23 120 l]
    by (simp flip: append_assoc)
  also have "\<dots> = rstrip_crlf l" using rstrip_crlf_take [OF assms(2)] by simp
  finally show ?thesis .
qed

lemma footer_line_again:
  assumes "footer_of_line l = Inr f" and "length (rstrip_crlf l) = 120" and "startswith l ''03''"
    and "justified 2 8 l" "justified 8 20 l" "justified 20 120 l"
  shows "footer_to_fixed_width_string f = rstrip_crlf l"
proof -
  note f = footer_of_line_fields [OF assms(1)]
  have "footer_to_fixed_width_string f =
          take 2 l @ slice 2 8 l @ slice 8 20 l @ slice 20 120 l"
    using f assms(4-6) startswith_two [OF assms(3)] by (simp add: footer_to_fixed_width_string_def justified_def)
  also have "\<dots> = take 120 l"
    using take_slice [of 2 8 l] take_slice [of 8 20 l] take_slice [of 20 120 l]
    by (simp flip: append_assoc)
  also have "\<dots> = rstrip_crlf l" using rstrip_crlf_take [OF assms(2)] by simp
  finally show ?thesis .
qed


lemma validate_file_structure_facts:
  assumes "validate_file_structure lines = Inr ()"
  shows "3 \<le> length lines" and "\<forall>l \<in> set lines. length (rstrip_crlf l) = 120"
    and "startswith (hd lines) ''01''" and "startswith (last lines) ''03''"
    and "\<forall>l \<in> set (butlast (tl lines)). startswith l ''02''"
  using assms by (auto simp: validate_file_structure_def list_ex_iff Let_def split: if_splits)

lemma lines_split:
  assumes "3 \<le> length lines"
  shows "lines = hd lines # butlast (tl lines) @ [last lines]"
proof -
  obtain a r where l: "lines = a # r" using assms by (cases lines) auto
  with assms have "r \<noteq> []" by auto
  then have "r = butlast r @ [last r]" by simp
  with l \<open>r \<noteq> []\<close> show ?thesis by simp
qed

lemma open_readlines_file:
  "open_readlines w p = Inr lines \<Longrightarrow> \<exists>c. files w p = Some (File c)"
  by (auto simp: open_readlines_def split: option.splits entry.splits)

text \<open>
  C2 (as amended). When a file is loaded into a new session and every field of its lines
  is its own text padded with spaces on the left, saving the session at once writes the
  lines of the file again, each without its line terminator and followed by one line
  feed. This is what \<open>save_file\<close> does whenever the operating system lets the file be
  written; when it refuses, \<open>save_file\<close> raises a \<open>FileFormatError\<close> with the message of
  the operating system.
\<close>

theorem load_save_round_trip:
  assumes "open_readlines w (file_path w fn) = Inr lines"
    and "read_file w (FileOperations fn) = (Inr (), s)"
    and "right_justified lines"
  shows "save_file w s =
           (case write_faults w (file_path w fn) of
              None \<Rightarrow>
                (Inr (), write_file w (file_path w fn) (text_of_lines (map rstrip_crlf lines)))
            | Some (OpenFails m) \<Rightarrow>
                (Inl (FileFormatError (''Error reading or validating file: '' @ m)), w)
            | Some (WriteFails m rest) \<Rightarrow>
                (Inl (FileFormatError (''Error reading or validating file: '' @ m)),
                 write_file w (file_path w fn) rest))"
proof -
  have fn: "filename (FileOperations fn) = fn" by (simp add: FileOperations_def)
  have "read_file_try w (FileOperations fn) = (Inr (), s)"
    using assms(2) by (auto simp: read_file_def FileOperations_def split: prod.splits sum.splits)
  from read_file_try_success [OF this] obtain lines' h f where
    o: "open_readlines w (file_path w (filename (FileOperations fn))) = Inr lines'"
    and v: "validate_file_structure lines' = Inr ()"
    and h: "header_of_line (hd lines') = Inr h"
    and t: "\<forall>l \<in> set (butlast (tl lines')). currency_of l = currency_of (lines' ! 1) \<and> \<not> isl (transaction_of_line l)"
    and f: "footer_of_line (last lines') = Inr f"
    and s: "s = (FileOperations fn)\<lparr>currency := currency_of (lines' ! 1), header := Some h,
                         transactions := transactions (FileOperations fn)
                           @ map (projr \<circ> transaction_of_line) (butlast (tl lines')),
                         footer := Some f, is_loaded := True\<rparr>"
    by blast
  from o assms(1) fn have same: "lines' = lines" by simp
  note sf = validate_file_structure_facts [OF v [unfolded same]]
  have hd_in: "hd lines \<in> set lines" and last_in: "last lines \<in> set lines"
    using sf(1) by (auto intro: hd_in_set last_in_set)
  have mid_in: "l \<in> set lines" if "l \<in> set (butlast (tl lines))" for l
  proof -
    have "set lines = set (hd lines # butlast (tl lines) @ [last lines])"
      by (rule arg_cong [OF lines_split [OF sf(1)]])
    with that show ?thesis by simp
  qed
  have rj: "justified 2 30 (hd lines)" "justified 30 60 (hd lines)"
      "justified 60 90 (hd lines)" "justified 90 120 (hd lines)"
      "justified 2 8 (last lines)" "justified 8 20 (last lines)" "justified 20 120 (last lines)"
    using assms(3) by (simp_all add: right_justified_def)
  have rjt: "justified 2 8 l \<and> justified 8 20 l \<and> justified 20 23 l \<and> justified 23 120 l"
    if "l \<in> set (butlast (tl lines))" for l
    using assms(3) that by (simp add: right_justified_def)
  have H: "header_to_fixed_width_string h = rstrip_crlf (hd lines)"
    using header_line_again [OF h [unfolded same] _ sf(3) rj(1-4)] sf(2) hd_in by blast
  have F: "footer_to_fixed_width_string f = rstrip_crlf (last lines)"
    using footer_line_again [OF f [unfolded same] _ sf(4) rj(5-7)] sf(2) last_in by blast
  have T: "transaction_to_fixed_width_string (projr (transaction_of_line l)) = rstrip_crlf l"
    if m: "l \<in> set (butlast (tl lines))" for l
  proof -
    from t m same have "\<not> isl (transaction_of_line l)" by blast
    then obtain tr where tr: "transaction_of_line l = Inr tr" by (cases "transaction_of_line l") auto
    have len: "length (rstrip_crlf l) = 120" using sf(2) mid_in [OF m] by blast
    have sw: "startswith l ''02''" using sf(5) m by blast
    from rjt [OF m] have j: "justified 2 8 l" "justified 8 20 l" "justified 20 23 l" "justified 23 120 l"
      by simp_all
    from transaction_line_again [OF tr len sw j] tr show ?thesis by simp
  qed
  have TS: "map transaction_to_fixed_width_string (map (projr \<circ> transaction_of_line) (butlast (tl lines)))
            = map rstrip_crlf (butlast (tl lines))"
    using T by simp
  have st: "transactions s = map (projr \<circ> transaction_of_line) (butlast (tl lines))"
    and sn: "filename s = fn" and sh: "header s = Some h" and sfo: "footer s = Some f"
    by (simp_all add: s same FileOperations_def)
  have RL: "record_lines h (transactions s) f = map rstrip_crlf lines"
  proof -
    have "record_lines h (transactions s) f =
            rstrip_crlf (hd lines) # map rstrip_crlf (butlast (tl lines)) @ [rstrip_crlf (last lines)]"
      using H F TS by (simp add: record_lines_def st)
    also have "\<dots> = map rstrip_crlf (hd lines # butlast (tl lines) @ [last lines])" by simp
    also have "\<dots> = map rstrip_crlf lines" using lines_split [OF sf(1)] by simp
    finally show ?thesis .
  qed
  obtain c where c: "files w (file_path w fn) = Some (File c)"
    using open_readlines_file [OF assms(1)] by blast
  show ?thesis
  proof (cases "write_faults w (file_path w fn)")
    case None
    have "save_file_try w s =
       (Inr (), write_file w (file_path w (filename s)) (text_of_lines (record_lines h (transactions s) f)))"
      by (rule save_file_try_file) (simp_all add: sn sh sfo c None)
    then show ?thesis by (simp only: save_file_def RL sn prod.case sum.case None option.case)
  next
    case (Some flt)
    then show ?thesis
      by (cases flt)
         (simp_all add: save_file_def save_file_try_def validate_file_exists_def Let_def
                        save_file_except_def sn sh c)
  qed
qed


theorem load_save_round_trip_witness:
  "files example_world (file_path example_world ''valid.txt'') = Some (File (text_of_lines [example_header_line, example_transaction_line, example_footer_line])) \<and>
   write_faults example_world (file_path example_world ''valid.txt'') = None \<and>
   open_readlines example_world (file_path example_world ''valid.txt'') = Inr (map (\<lambda>l. l @ [CHR 0x0A]) [example_header_line, example_transaction_line, example_footer_line]) \<and>
   read_file example_world (FileOperations ''valid.txt'') = (Inr (), example_session) \<and>
   right_justified (map (\<lambda>l. l @ [CHR 0x0A]) [example_header_line, example_transaction_line, example_footer_line]) \<and>
   save_file example_world example_session =
     (Inr (), write_file example_world (file_path example_world ''valid.txt'') (text_of_lines [example_header_line, example_transaction_line, example_footer_line]))"
proof -
  have 0: "files example_world (file_path example_world ''valid.txt'') = Some (File (text_of_lines [example_header_line, example_transaction_line, example_footer_line]))"
    by code_simp
  have 1: "open_readlines example_world (file_path example_world ''valid.txt'') = Inr (map (\<lambda>l. l @ [CHR 0x0A]) [example_header_line, example_transaction_line, example_footer_line])"
    by code_simp
  have 2: "read_file example_world (FileOperations ''valid.txt'') = (Inr (), example_session)"
    by code_simp
  have 3: "right_justified (map (\<lambda>l. l @ [CHR 0x0A]) [example_header_line, example_transaction_line, example_footer_line])" by code_simp
  have 4: "map rstrip_crlf (map (\<lambda>l. l @ [CHR 0x0A]) [example_header_line, example_transaction_line, example_footer_line]) = [example_header_line, example_transaction_line, example_footer_line]" by code_simp
  have 5: "write_faults example_world (file_path example_world ''valid.txt'') = None" by code_simp
  from load_save_round_trip [OF 1 2 3]
  have "save_file example_world example_session =
     (Inr (), write_file example_world (file_path example_world ''valid.txt'') (text_of_lines [example_header_line, example_transaction_line, example_footer_line]))"
    by (simp only: 4 5 option.case)
  with 0 5 1 2 3 show ?thesis by (intro conjI)
qed

text \<open>
  C2 as the specification states it fails: a file whose header has the name at the left
  of its field is valid and is loaded, and saving it at once writes the name at the
  right of the field, so the file is not the one that was read.
\<close>

theorem load_save_left_justified:
  "fst (read_file (world_with ''data.txt'' [''01John'' @ replicate 24 CHR '' '' @ py_rjust 30 CHR '' '' ''Smith'' @ py_rjust 30 CHR '' '' ''Paul'' @ py_rjust 30 CHR '' '' ''1 Main Street'', example_transaction_line, example_footer_line]) (FileOperations ''data.txt'')) = Inr () \<and>
   fst (save_file (world_with ''data.txt'' [''01John'' @ replicate 24 CHR '' '' @ py_rjust 30 CHR '' '' ''Smith'' @ py_rjust 30 CHR '' '' ''Paul'' @ py_rjust 30 CHR '' '' ''1 Main Street'', example_transaction_line, example_footer_line]) (snd (read_file (world_with ''data.txt'' [''01John'' @ replicate 24 CHR '' '' @ py_rjust 30 CHR '' '' ''Smith'' @ py_rjust 30 CHR '' '' ''Paul'' @ py_rjust 30 CHR '' '' ''1 Main Street'', example_transaction_line, example_footer_line]) (FileOperations ''data.txt'')))) = Inr () \<and>
   files (world_with ''data.txt'' [''01John'' @ replicate 24 CHR '' '' @ py_rjust 30 CHR '' '' ''Smith'' @ py_rjust 30 CHR '' '' ''Paul'' @ py_rjust 30 CHR '' '' ''1 Main Street'', example_transaction_line, example_footer_line]) ''/app/files/data.txt'' = Some (File (text_of_lines [''01John'' @ replicate 24 CHR '' '' @ py_rjust 30 CHR '' '' ''Smith'' @ py_rjust 30 CHR '' '' ''Paul'' @ py_rjust 30 CHR '' '' ''1 Main Street'', example_transaction_line, example_footer_line])) \<and>
   files (snd (save_file (world_with ''data.txt'' [''01John'' @ replicate 24 CHR '' '' @ py_rjust 30 CHR '' '' ''Smith'' @ py_rjust 30 CHR '' '' ''Paul'' @ py_rjust 30 CHR '' '' ''1 Main Street'', example_transaction_line, example_footer_line]) (snd (read_file (world_with ''data.txt'' [''01John'' @ replicate 24 CHR '' '' @ py_rjust 30 CHR '' '' ''Smith'' @ py_rjust 30 CHR '' '' ''Paul'' @ py_rjust 30 CHR '' '' ''1 Main Street'', example_transaction_line, example_footer_line]) (FileOperations ''data.txt''))))) ''/app/files/data.txt'' =
     Some (File (text_of_lines [example_header_line, example_transaction_line, example_footer_line])) \<and>
   text_of_lines [''01John'' @ replicate 24 CHR '' '' @ py_rjust 30 CHR '' '' ''Smith'' @ py_rjust 30 CHR '' '' ''Paul'' @ py_rjust 30 CHR '' '' ''1 Main Street'', example_transaction_line, example_footer_line] \<noteq> text_of_lines [example_header_line, example_transaction_line, example_footer_line]"
  by code_simp

end
